theory Spec2Isabelle
  imports Complex_Main "HOL-Library.Char_ord" "HOL-Library.List_Lexorder"
begin

section \<open>Data frames\<close>

text \<open>
  The program of \<^verbatim>\<open>cricket_dashboard.py\<close> holds its data in pandas data frames. A
  frame is modelled by its column index (name and dtype of every column, in order) and its
  rows, each row an association list from column name to cell, in the order of the columns.
  A cell is an integer, a float, a string or the missing value NaN. An integer cell holds
  the value of a 64-bit signed integer, and sums of integer columns wrap around as pandas'
  \<^verbatim>\<open>int64\<close> sums do. A float cell holds the real number it denotes: float sums are
  exact in the model, which speaks about which rows and columns are combined, not about
  rounding.
\<close>

datatype error = KeyError string | TypeError | ValueError | IOError

datatype dtype = Int64 | Float64 | Object

datatype cell = IntV int | FloatV real | StrV string | NaN

type_synonym row = "(string \<times> cell) list"

record dataframe =
  columns :: "(string \<times> dtype) list"
  rows :: "row list"

text \<open>\<^verbatim>\<open>pd.DataFrame()\<close>: no columns and no rows.\<close>

definition empty_df :: dataframe where
  "empty_df = \<lparr>columns = [], rows = []\<rparr>"

definition names :: "dataframe \<Rightarrow> string list" where
  "names df = map fst (columns df)"

text \<open>\<^verbatim>\<open>df.empty\<close>: one of the two axes has length zero.\<close>

definition df_empty :: "dataframe \<Rightarrow> bool" where
  "df_empty df = (columns df = [] \<or> rows df = [])"

text \<open>The value of a row at a column; \<^verbatim>\<open>row.get(c, d)\<close> is the same lookup with a default.\<close>

definition cell_at :: "row \<Rightarrow> string \<Rightarrow> cell" where
  "cell_at r c = (case map_of r c of Some v \<Rightarrow> v | None \<Rightarrow> NaN)"

text \<open>\<^verbatim>\<open>df[c]\<close>: the cells of a column, or KeyError when the frame has no such column.\<close>

definition getcol :: "dataframe \<Rightarrow> string \<Rightarrow> error + cell list" where
  "getcol df c =
     (if c \<in> set (names df) then Inr (map (\<lambda>r. cell_at r c) (rows df))
      else Inl (KeyError c))"

text \<open>\<^verbatim>\<open>df[mask]\<close>: the rows that satisfy a predicate, columns unchanged.\<close>

definition select_rows :: "(row \<Rightarrow> bool) \<Rightarrow> dataframe \<Rightarrow> dataframe" where
  "select_rows P df = df\<lparr>rows := filter P (rows df)\<rparr>"

text \<open>\<^verbatim>\<open>df.drop(columns=[c])\<close>: KeyError when the column is absent.\<close>

definition drop_column :: "string \<Rightarrow> dataframe \<Rightarrow> error + dataframe" where
  "drop_column c df =
     (if c \<in> set (names df)
      then Inr \<lparr>columns = filter (\<lambda>(n, t). n \<noteq> c) (columns df),
                rows = map (filter (\<lambda>(n, v). n \<noteq> c)) (rows df)\<rparr>
      else Inl (KeyError c))"

subsection \<open>Group and sum\<close>

text \<open>
  \<^verbatim>\<open>sum\<close> of one column within one group. An integer column sums its integers in
  \<^verbatim>\<open>int64\<close> arithmetic, which wraps around modulo \<open>2^64\<close> into the range from \<open>-2^63\<close> to
  \<open>2^63 - 1\<close>: wrapping the whole sum gives what wrapping every addition gives. A float column
  sums its floats and skips missing values (pandas' default \<^verbatim>\<open>skipna\<close>).
\<close>

definition wrap64 :: "int \<Rightarrow> int" where
  "wrap64 x = (x + 2 ^ 63) mod 2 ^ 64 - 2 ^ 63"

fun int_of_cell :: "cell \<Rightarrow> int" where
  "int_of_cell (IntV n) = n"
| "int_of_cell (FloatV x) = 0"
| "int_of_cell (StrV s) = 0"
| "int_of_cell NaN = 0"

fun real_of_cell :: "cell \<Rightarrow> real" where
  "real_of_cell (IntV n) = real_of_int n"
| "real_of_cell (FloatV x) = x"
| "real_of_cell (StrV s) = 0"
| "real_of_cell NaN = 0"

fun sum_cells :: "dtype \<Rightarrow> cell list \<Rightarrow> cell" where
  "sum_cells Int64 cs = IntV (wrap64 (sum_list (map int_of_cell cs)))"
| "sum_cells Float64 cs = FloatV (sum_list (map real_of_cell cs))"
| "sum_cells Object cs = NaN"

text \<open>
  The keys of \<^verbatim>\<open>groupby(key)\<close>: the distinct values of the key column, rows with a missing
  key left out, in ascending order (\<^verbatim>\<open>sort=True\<close>). The program groups by \<^verbatim>\<open>format\<close> only,
  a column it fills with strings, so the keys are the string values, ordered as Python orders
  strings: by code point, a proper prefix first.
\<close>

definition str_keys :: "cell list \<Rightarrow> string list" where
  "str_keys cs = concat (map (\<lambda>c. case c of StrV s \<Rightarrow> [s] | _ \<Rightarrow> []) cs)"

definition group_keys :: "string \<Rightarrow> dataframe \<Rightarrow> string list" where
  "group_keys key df = sort (remdups (str_keys (map (\<lambda>r. cell_at r key) (rows df))))"

text \<open>The columns that \<^verbatim>\<open>sum(numeric_only=True)\<close> keeps: numeric dtype, and not the key.\<close>

definition numeric_columns :: "string \<Rightarrow> dataframe \<Rightarrow> (string \<times> dtype) list" where
  "numeric_columns key df = filter (\<lambda>(n, t). n \<noteq> key \<and> t \<noteq> Object) (columns df)"

definition group_rows :: "string \<Rightarrow> string \<Rightarrow> dataframe \<Rightarrow> row list" where
  "group_rows key k df = filter (\<lambda>r. cell_at r key = StrV k) (rows df)"

text \<open>
  \<^verbatim>\<open>df.groupby(key).sum(numeric_only=True).reset_index()\<close>: one row per key, the key first,
  then the sum of every numeric column over the rows of that key.
\<close>

definition groupby_sum :: "string \<Rightarrow> dataframe \<Rightarrow> error + dataframe" where
  "groupby_sum key df =
     (if key \<in> set (names df)
      then Inr \<lparr>columns = (key, Object) # numeric_columns key df,
                rows = map (\<lambda>k. (key, StrV k) #
                          map (\<lambda>(n, t). (n, sum_cells t (map (\<lambda>r. cell_at r n) (group_rows key k df))))
                              (numeric_columns key df))
                        (group_keys key df)\<rparr>
      else Inl (KeyError key))"

section \<open>The stat aggregator\<close>

text \<open>
  \<^verbatim>\<open>
  def get_stats(df, player):
      if df.empty or player not in df["player"].values:
          return pd.DataFrame()
      data = df[df["player"] == player].drop(columns=["player"])
      return data.groupby("format").sum(numeric_only=True).reset_index()
  \<close>
  \<^verbatim>\<open>or\<close> is short-circuit: an empty frame is answered before its \<^verbatim>\<open>player\<close> column is
  read. On a frame with rows and no \<^verbatim>\<open>player\<close> column the read raises KeyError.
\<close>

definition get_stats :: "dataframe \<Rightarrow> string \<Rightarrow> error + dataframe" where
  "get_stats df player =
     (if df_empty df then Inr empty_df
      else case getcol df ''player'' of
        Inl e \<Rightarrow> Inl e
      | Inr vals \<Rightarrow>
          if StrV player \<notin> set vals then Inr empty_df
          else case drop_column ''player''
                      (select_rows (\<lambda>r. cell_at r ''player'' = StrV player) df) of
            Inl e \<Rightarrow> Inl e
          | Inr data \<Rightarrow> groupby_sum ''format'' data)"

section \<open>The dataset loader\<close>

subsection \<open>Column headers\<close>

text \<open>
  \<^verbatim>\<open>df.columns.str.strip().str.lower()\<close>: white space is removed at both ends of a header
  and the ASCII capitals are lower-cased.
\<close>

definition is_space :: "char \<Rightarrow> bool" where
  "is_space c = (c \<in> set [CHR '' '', CHR 0x09, CHR 0x0A, CHR 0x0B, CHR 0x0C, CHR 0x0D])"

definition strip :: "string \<Rightarrow> string" where
  "strip s = rev (dropWhile is_space (rev (dropWhile is_space s)))"

definition lower_char :: "char \<Rightarrow> char" where
  "lower_char c =
     (case map_of (zip ''ABCDEFGHIJKLMNOPQRSTUVWXYZ'' ''abcdefghijklmnopqrstuvwxyz'') c of
        Some d \<Rightarrow> d | None \<Rightarrow> c)"

definition lower :: "string \<Rightarrow> string" where
  "lower s = map lower_char s"

definition rename_columns :: "(string \<Rightarrow> string) \<Rightarrow> dataframe \<Rightarrow> dataframe" where
  "rename_columns f df =
     \<lparr>columns = map (\<lambda>(n, t). (f n, t)) (columns df),
      rows = map (map (\<lambda>(n, v). (f n, v))) (rows df)\<rparr>"

definition normalize_columns :: "dataframe \<Rightarrow> dataframe" where
  "normalize_columns df = rename_columns (\<lambda>n. lower (strip n)) df"

subsection \<open>Left join on a key column\<close>

text \<open>
  \<^verbatim>\<open>left.merge(right, on=key, how="left")\<close>. Both frames must have the key column, else
  KeyError; a text key cannot be joined with a numeric one (ValueError) unless one side has no
  rows. Every left row is kept, in order: once for each right row with an equal key, or once
  with the right-hand columns missing when there is none. A column name other than the key
  that both frames have gets the suffix \<^verbatim>\<open>_x\<close> on the left and \<^verbatim>\<open>_y\<close> on the right. An
  integer column of the right frame turns into a float column when some row has no match,
  since it then holds NaN.
\<close>

fun key_eq :: "cell \<Rightarrow> cell \<Rightarrow> bool" where
  "key_eq (StrV a) (StrV b) = (a = b)"
| "key_eq (StrV a) c = False"
| "key_eq c (StrV b) = False"
| "key_eq NaN NaN = True"
| "key_eq NaN c = False"
| "key_eq c NaN = False"
| "key_eq a b = (real_of_cell a = real_of_cell b)"

fun to_dtype :: "dtype \<Rightarrow> cell \<Rightarrow> cell" where
  "to_dtype Float64 (IntV n) = FloatV (real_of_int n)"
| "to_dtype t c = c"

definition key_dtype :: "string \<Rightarrow> dataframe \<Rightarrow> dtype" where
  "key_dtype key df = (case map_of (columns df) key of Some t \<Rightarrow> t | None \<Rightarrow> Object)"

definition keys_compatible :: "string \<Rightarrow> dataframe \<Rightarrow> dataframe \<Rightarrow> bool" where
  "keys_compatible key l r =
     (rows l = [] \<or> rows r = [] \<or> (key_dtype key l = Object) = (key_dtype key r = Object))"

definition matches :: "string \<Rightarrow> dataframe \<Rightarrow> row \<Rightarrow> row list" where
  "matches key r lr = filter (\<lambda>rr. key_eq (cell_at lr key) (cell_at rr key)) (rows r)"

definition merge_left :: "string \<Rightarrow> dataframe \<Rightarrow> dataframe \<Rightarrow> error + dataframe" where
  "merge_left key l r =
     (if key \<in> set (names l) \<and> key \<in> set (names r) then
        if keys_compatible key l r then
          let lname = (\<lambda>n. if n \<noteq> key \<and> n \<in> set (names r) then n @ ''_x'' else n);
              rname = (\<lambda>n. if n \<in> set (names l) then n @ ''_y'' else n);
              rcols = filter (\<lambda>(n, t). n \<noteq> key) (columns r);
              miss = list_ex (\<lambda>lr. matches key r lr = []) (rows l);
              rtype = (\<lambda>t. if miss \<and> t = Int64 then Float64 else t)
          in Inr \<lparr>columns = map (\<lambda>(n, t). (lname n, t)) (columns l) @
                             map (\<lambda>(n, t). (rname n, rtype t)) rcols,
                  rows = concat (map (\<lambda>lr.
                     let lpart = map (\<lambda>(n, v). (lname n, v)) lr in
                     case matches key r lr of
                       [] \<Rightarrow> [lpart @ map (\<lambda>(n, t). (rname n, NaN)) rcols]
                     | ms \<Rightarrow> map (\<lambda>rr. lpart @
                               map (\<lambda>(n, t). (rname n, to_dtype (rtype t) (cell_at rr n))) rcols) ms)
                     (rows l))\<rparr>
        else Inl ValueError
      else Inl (KeyError key))"

text \<open>\<^verbatim>\<open>df[c] = v\<close> with a string \<^verbatim>\<open>v\<close>: the column is overwritten, or added at the end.\<close>

definition set_column :: "string \<Rightarrow> cell \<Rightarrow> dataframe \<Rightarrow> dataframe" where
  "set_column c v df =
     (if c \<in> set (names df)
      then \<lparr>columns = map (\<lambda>(n, t). if n = c then (n, Object) else (n, t)) (columns df),
            rows = map (map (\<lambda>(n, x). if n = c then (n, v) else (n, x))) (rows df)\<rparr>
      else \<lparr>columns = columns df @ [(c, Object)],
            rows = map (\<lambda>r. r @ [(c, v)]) (rows df)\<rparr>)"

subsection \<open>Concatenation\<close>

text \<open>
  \<^verbatim>\<open>pd.concat(frames, ignore_index=True)\<close>: the columns are the union of the frames'
  columns in order of first appearance, the rows are the frames' rows in order, with NaN
  where a frame has no such column. A column is an object column when it is one in some
  frame, else a float column when it is one in some frame or when a frame with rows lacks
  it, else an integer column.
\<close>

fun join_dtype :: "dtype \<Rightarrow> dtype \<Rightarrow> dtype" where
  "join_dtype Object t = Object"
| "join_dtype t Object = Object"
| "join_dtype Float64 t = Float64"
| "join_dtype t Float64 = Float64"
| "join_dtype Int64 Int64 = Int64"

definition union_names :: "dataframe list \<Rightarrow> string list" where
  "union_names dfs = rev (remdups (rev (concat (map names dfs))))"

definition concat_dtype :: "dataframe list \<Rightarrow> string \<Rightarrow> dtype" where
  "concat_dtype dfs n =
     foldl join_dtype Int64
       (concat (map (\<lambda>df. case map_of (columns df) n of
                             Some t \<Rightarrow> [t]
                           | None \<Rightarrow> if rows df = [] then [] else [Float64]) dfs))"

definition concat_frames :: "dataframe list \<Rightarrow> dataframe" where
  "concat_frames dfs =
     (let cols = map (\<lambda>n. (n, concat_dtype dfs n)) (union_names dfs)
      in \<lparr>columns = cols,
          rows = concat (map (\<lambda>df. map (\<lambda>r. map (\<lambda>(n, t).
                     (n, if n \<in> set (names df) then to_dtype t (cell_at r n) else NaN)) cols)
                   (rows df)) dfs)\<rparr>)"

subsection \<open>Reading the files\<close>

text \<open>
  The file system is the function that \<^verbatim>\<open>pd.read_csv\<close> computes: the parsed frame of a
  path, or the exception it raises.

  \<^verbatim>\<open>
  try:
      all_players_df = pd.read_csv(os.path.join(data_dir, "all_players.csv"))
      all_players_df.columns = all_players_df.columns.str.strip().str.lower()
      all_players_df.rename(columns={"name": "player"}, inplace=True)
  except Exception as e:
      st.error(f"Failed to load all_players.csv: {e}")
      all_players_df = pd.DataFrame()
  \<close>
\<close>

type_synonym files = "string \<Rightarrow> error + dataframe"

datatype message = StError string error | StWarning string error

definition data_dir :: string where
  "data_dir = ''archive (2)''"

definition formats :: "string list" where
  "formats = [''ODI'', ''TEST'', ''T20'']"

definition path_join :: "string \<Rightarrow> string \<Rightarrow> string" where
  "path_join d f = d @ ''/'' @ f"

definition load_directory :: "files \<Rightarrow> dataframe \<times> message list" where
  "load_directory fs =
     (case fs (path_join data_dir ''all_players.csv'') of
        Inr d \<Rightarrow> (rename_columns (\<lambda>n. if n = ''name'' then ''player'' else n)
                    (normalize_columns d), [])
      | Inl e \<Rightarrow> (empty_df, [StError ''all_players.csv'' e]))"

text \<open>
  One \<^verbatim>\<open>try\<close> block of the loop, the same for the three categories:
  \<^verbatim>\<open>
  bat = pd.read_csv(os.path.join(data_dir, f"{fmt}_batting.csv"))
  bat.columns = bat.columns.str.strip().str.lower()
  bat = bat.merge(all_players_df, on="id", how="left")
  bat["format"] = fmt
  \<close>
  An exception of any of the lines leaves the block.
\<close>

definition load_slice :: "files \<Rightarrow> dataframe \<Rightarrow> string \<Rightarrow> string \<Rightarrow> error + dataframe" where
  "load_slice fs all_players_df fmt category =
     (case fs (path_join data_dir (fmt @ ''_'' @ category @ ''.csv'')) of
        Inl e \<Rightarrow> Inl e
      | Inr bat \<Rightarrow>
          (case merge_left ''id'' (normalize_columns bat) all_players_df of
             Inl e \<Rightarrow> Inl e
           | Inr merged \<Rightarrow> Inr (set_column ''format'' (StrV fmt) merged)))"

record loading =
  batting_list :: "dataframe list"
  bowling_list :: "dataframe list"
  all_round_list :: "dataframe list"
  messages :: "message list"

text \<open>The body of \<^verbatim>\<open>for fmt in formats\<close>: three blocks, each appends or warns.\<close>

definition load_format :: "files \<Rightarrow> dataframe \<Rightarrow> loading \<Rightarrow> string \<Rightarrow> loading" where
  "load_format fs all_players_df st fmt =
     (let st1 = (case load_slice fs all_players_df fmt ''batting'' of
                   Inr bat \<Rightarrow> st\<lparr>batting_list := batting_list st @ [bat]\<rparr>
                 | Inl e \<Rightarrow> st\<lparr>messages := messages st @ [StWarning (fmt @ ''_batting.csv'') e]\<rparr>);
          st2 = (case load_slice fs all_players_df fmt ''bowling'' of
                   Inr bowl \<Rightarrow> st1\<lparr>bowling_list := bowling_list st1 @ [bowl]\<rparr>
                 | Inl e \<Rightarrow> st1\<lparr>messages := messages st1 @ [StWarning (fmt @ ''_bowling.csv'') e]\<rparr>)
      in (case load_slice fs all_players_df fmt ''all_round'' of
            Inr allr \<Rightarrow> st2\<lparr>all_round_list := all_round_list st2 @ [allr]\<rparr>
          | Inl e \<Rightarrow> st2\<lparr>messages := messages st2 @ [StWarning (fmt @ ''_all_round.csv'') e]\<rparr>))"

text \<open>\<^verbatim>\<open>pd.concat(xs, ignore_index=True) if xs else pd.DataFrame()\<close>\<close>

definition concat_or_empty :: "dataframe list \<Rightarrow> dataframe" where
  "concat_or_empty dfs = (if dfs = [] then empty_df else concat_frames dfs)"

record tables =
  batting_df :: dataframe
  bowling_df :: dataframe
  all_round_df :: dataframe
  shown :: "message list"

definition load_tables :: "files \<Rightarrow> tables" where
  "load_tables fs =
     (let (all_players_df, errs) = load_directory fs;
          st = foldl (load_format fs all_players_df)
                 \<lparr>batting_list = [], bowling_list = [], all_round_list = [], messages = errs\<rparr>
                 formats
      in \<lparr>batting_df = concat_or_empty (batting_list st),
          bowling_df = concat_or_empty (bowling_list st),
          all_round_df = concat_or_empty (all_round_list st),
          shown = messages st\<rparr>)"

section \<open>The player index\<close>

text \<open>
  \<^verbatim>\<open>
  try:
      all_players = set(batting_df["player"]) | set(bowling_df["player"]) | set(all_round_df["player"])
  except KeyError:
      all_players = set()
  player_names = sorted(all_players)
  \<close>
  The set is modelled by a list without duplicates. \<^verbatim>\<open>sorted\<close> stands outside the
  \<^verbatim>\<open>try\<close>. It orders strings by code point; comparing a string with a float, which NaN
  is, raises TypeError, and every sort of a list that holds both makes such a comparison.
  Numbers are ordered by value (the program's player columns hold text, so this case serves
  a lone NaN).
\<close>

definition all_players :: "tables \<Rightarrow> cell list" where
  "all_players t =
     (case getcol (batting_df t) ''player'' of
        Inl e \<Rightarrow> []
      | Inr b \<Rightarrow>
          (case getcol (bowling_df t) ''player'' of
             Inl e \<Rightarrow> []
           | Inr w \<Rightarrow>
               (case getcol (all_round_df t) ''player'' of
                  Inl e \<Rightarrow> []
                | Inr a \<Rightarrow> remdups (b @ w @ a))))"

definition py_sorted :: "cell list \<Rightarrow> error + cell list" where
  "py_sorted xs =
     (if length (str_keys xs) = length xs then Inr (map StrV (sort (str_keys xs)))
      else if str_keys xs = [] then Inr (sort_key real_of_cell xs)
      else Inl TypeError)"

definition player_names :: "tables \<Rightarrow> error + cell list" where
  "player_names t = py_sorted (all_players t)"

section \<open>The comparison view\<close>

text \<open>
  \<^verbatim>\<open>
  compare_df = dfs[label][dfs[label]["player"].isin(selected)]
  if compare_df.empty:
      st.warning(f"No {label.lower()} records found.")
      continue
  ...
  metrics = ["runs", "average_score", "strike_rate"] if label == "Batting" else ["wk"]
  for metric in metrics:
      for player in selected:
          subset = compare_df[compare_df["player"] == player].groupby("format").sum(numeric_only=True).reset_index()
          fig.add_trace(go.Bar(x=subset["format"], y=subset[metric], name=f"{player} - {metric}"))
  \<close>
\<close>

definition metrics :: "string \<Rightarrow> string list" where
  "metrics label =
     (if label = ''Batting'' then [''runs'', ''average_score'', ''strike_rate''] else [''wk''])"

definition compare_frame :: "dataframe \<Rightarrow> string list \<Rightarrow> error + dataframe" where
  "compare_frame df selected =
     (case getcol df ''player'' of
        Inl e \<Rightarrow> Inl e
      | Inr vals \<Rightarrow> Inr (select_rows (\<lambda>r. cell_at r ''player'' \<in> set (map StrV selected)) df))"

definition chart_subset :: "dataframe \<Rightarrow> string \<Rightarrow> error + dataframe" where
  "chart_subset compare_df player =
     (case getcol compare_df ''player'' of
        Inl e \<Rightarrow> Inl e
      | Inr vals \<Rightarrow>
          groupby_sum ''format'' (select_rows (\<lambda>r. cell_at r ''player'' = StrV player) compare_df))"

record trace =
  bar_x :: "cell list"
  bar_y :: "cell list"
  bar_name :: string

definition bar :: "dataframe \<Rightarrow> string \<Rightarrow> string \<Rightarrow> error + trace" where
  "bar sub metric player =
     (case getcol sub ''format'' of
        Inl e \<Rightarrow> Inl e
      | Inr x \<Rightarrow>
          (case getcol sub metric of
             Inl e \<Rightarrow> Inl e
           | Inr y \<Rightarrow> Inr \<lparr>bar_x = x, bar_y = y, bar_name = player @ '' - '' @ metric\<rparr>))"

fun add_player_traces :: "dataframe \<Rightarrow> string \<Rightarrow> string list \<Rightarrow> trace list \<Rightarrow> error + trace list" where
  "add_player_traces compare_df metric [] fig = Inr fig"
| "add_player_traces compare_df metric (player # rest) fig =
     (case chart_subset compare_df player of
        Inl e \<Rightarrow> Inl e
      | Inr sub \<Rightarrow>
          (case bar sub metric player of
             Inl e \<Rightarrow> Inl e
           | Inr t \<Rightarrow> add_player_traces compare_df metric rest (fig @ [t])))"

fun add_metric_traces :: "dataframe \<Rightarrow> string list \<Rightarrow> string list \<Rightarrow> trace list \<Rightarrow> error + trace list" where
  "add_metric_traces compare_df [] selected fig = Inr fig"
| "add_metric_traces compare_df (metric # rest) selected fig =
     (case add_player_traces compare_df metric selected fig of
        Inl e \<Rightarrow> Inl e
      | Inr fig' \<Rightarrow> add_metric_traces compare_df rest selected fig')"

text \<open>One tab: \<^verbatim>\<open>None\<close> is the warning that no records were found.\<close>

definition comparison_chart :: "string \<Rightarrow> dataframe \<Rightarrow> string list \<Rightarrow> error + trace list option" where
  "comparison_chart label df selected =
     (case compare_frame df selected of
        Inl e \<Rightarrow> Inl e
      | Inr compare_df \<Rightarrow>
          if df_empty compare_df then Inr None
          else (case add_metric_traces compare_df (metrics label) selected [] of
                  Inl e \<Rightarrow> Inl e
                | Inr fig \<Rightarrow> Inr (Some fig)))"

section \<open>The summary requester\<close>

text \<open>
  \<^verbatim>\<open>
  prompt = "Summarize the cricket performance of the following players:\n"
  for player in selected:
      prompt += f"\nPlayer: {player}\n"
      for _, row in get_stats(batting_df, player).iterrows():
          prompt += f"Batting - {row['format']}: {row.get('runs', '-')} runs, Avg: {row.get('average_score', '-')}, SR: {row.get('strike_rate', '-')}\n"
      for _, row in get_stats(bowling_df, player).iterrows():
          prompt += f"Bowling - {row['format']}: {row.get('wk', '-')} wickets\n"
  \<close>
  An f-string puts a string in as it is; how a number is printed is a parameter \<open>num\<close> of
  the model. \<^verbatim>\<open>row['format']\<close> raises KeyError when the row has no such field;
  \<^verbatim>\<open>row.get(c, '-')\<close> gives the dash instead.
\<close>

fun py_str :: "(cell \<Rightarrow> string) \<Rightarrow> cell \<Rightarrow> string" where
  "py_str num (StrV s) = s"
| "py_str num c = num c"

definition newline :: string where
  "newline = [CHR 0x0A]"

definition item :: "(cell \<Rightarrow> string) \<Rightarrow> row \<Rightarrow> string \<Rightarrow> error + string" where
  "item num r c = (case map_of r c of Some v \<Rightarrow> Inr (py_str num v) | None \<Rightarrow> Inl (KeyError c))"

definition get_or_dash :: "(cell \<Rightarrow> string) \<Rightarrow> row \<Rightarrow> string \<Rightarrow> string" where
  "get_or_dash num r c = (case map_of r c of Some v \<Rightarrow> py_str num v | None \<Rightarrow> ''-'')"

definition batting_line :: "(cell \<Rightarrow> string) \<Rightarrow> row \<Rightarrow> error + string" where
  "batting_line num r =
     (case item num r ''format'' of
        Inl e \<Rightarrow> Inl e
      | Inr f \<Rightarrow> Inr (''Batting - '' @ f @ '': '' @ get_or_dash num r ''runs'' @ '' runs, Avg: '' @
                     get_or_dash num r ''average_score'' @ '', SR: '' @
                     get_or_dash num r ''strike_rate'' @ newline))"

definition bowling_line :: "(cell \<Rightarrow> string) \<Rightarrow> row \<Rightarrow> error + string" where
  "bowling_line num r =
     (case item num r ''format'' of
        Inl e \<Rightarrow> Inl e
      | Inr f \<Rightarrow> Inr (''Bowling - '' @ f @ '': '' @ get_or_dash num r ''wk'' @ '' wickets'' @ newline))"

fun add_lines :: "(row \<Rightarrow> error + string) \<Rightarrow> row list \<Rightarrow> string \<Rightarrow> error + string" where
  "add_lines line [] prompt = Inr prompt"
| "add_lines line (r # rs) prompt =
     (case line r of Inl e \<Rightarrow> Inl e | Inr l \<Rightarrow> add_lines line rs (prompt @ l))"

fun add_players :: "(cell \<Rightarrow> string) \<Rightarrow> dataframe \<Rightarrow> dataframe \<Rightarrow> string list \<Rightarrow> string \<Rightarrow> error + string" where
  "add_players num bat bowl [] prompt = Inr prompt"
| "add_players num bat bowl (player # rest) prompt =
     (case get_stats bat player of
        Inl e \<Rightarrow> Inl e
      | Inr b \<Rightarrow>
          (case add_lines (batting_line num) (rows b) (prompt @ newline @ ''Player: '' @ player @ newline) of
             Inl e \<Rightarrow> Inl e
           | Inr prompt1 \<Rightarrow>
               (case get_stats bowl player of
                  Inl e \<Rightarrow> Inl e
                | Inr w \<Rightarrow>
                    (case add_lines (bowling_line num) (rows w) prompt1 of
                       Inl e \<Rightarrow> Inl e
                     | Inr prompt2 \<Rightarrow> add_players num bat bowl rest prompt2))))"

definition instruction :: string where
  "instruction = ''Summarize the cricket performance of the following players:'' @ newline"

definition build_prompt :: "(cell \<Rightarrow> string) \<Rightarrow> dataframe \<Rightarrow> dataframe \<Rightarrow> string list \<Rightarrow> error + string" where
  "build_prompt num bat bowl selected = add_players num bat bowl selected instruction"

text \<open>
  \<^verbatim>\<open>
  response = model.generate_content(prompt)
  summary_text = response.text
  with open("summary.txt", "w", encoding="utf-8") as f:
      f.write(summary_text)
  st.success(...); st.markdown(summary_text); st.info(...)
  \<close>
  all inside one \<^verbatim>\<open>try\<close> whose handler shows the error. The service is a function from
  the prompt to the text or the exception; the disk maps a path to the text of its file and
  \<open>writable\<close> tells whether \<^verbatim>\<open>open(path, "w")\<close> succeeds. Opening in mode \<^verbatim>\<open>"w"\<close>
  creates the file or truncates it to length zero; \<^verbatim>\<open>f.write\<close> puts the text after what
  the file holds since it was opened.
\<close>

datatype shown_item = Success | Markdown string | Info | Failure error

record disk =
  contents :: "string \<rightharpoonup> string"
  writable :: "string \<Rightarrow> bool"

definition open_w :: "string \<Rightarrow> disk \<Rightarrow> error + disk" where
  "open_w path d =
     (if writable d path then Inr (d\<lparr>contents := (contents d)(path \<mapsto> [])\<rparr>) else Inl IOError)"

definition f_write :: "string \<Rightarrow> string \<Rightarrow> disk \<Rightarrow> disk" where
  "f_write path text d =
     d\<lparr>contents := (contents d)(path \<mapsto>
          (case contents d path of Some old \<Rightarrow> old @ text | None \<Rightarrow> text))\<rparr>"

definition write_file :: "string \<Rightarrow> string \<Rightarrow> disk \<Rightarrow> error + disk" where
  "write_file path text d =
     (case open_w path d of Inl e \<Rightarrow> Inl e | Inr d' \<Rightarrow> Inr (f_write path text d'))"

definition generate_summary ::
  "(string \<Rightarrow> error + string) \<Rightarrow> error + string \<Rightarrow> disk \<Rightarrow> disk \<times> shown_item list" where
  "generate_summary service prompt d =
     (case prompt of
        Inl e \<Rightarrow> (d, [Failure e])
      | Inr p \<Rightarrow>
          (case service p of
             Inl e \<Rightarrow> (d, [Failure e])
           | Inr summary_text \<Rightarrow>
               (case write_file ''summary.txt'' summary_text d of
                  Inl e \<Rightarrow> (d, [Failure e])
                | Inr d' \<Rightarrow> (d', [Success, Markdown summary_text, Info]))))"

section \<open>Notions used in the statements\<close>

text \<open>The rows of a table that belong to a player, and those of them of one format.\<close>

definition player_rows :: "dataframe \<Rightarrow> string \<Rightarrow> row list" where
  "player_rows T p = filter (\<lambda>r. cell_at r ''player'' = StrV p) (rows T)"

definition format_rows :: "dataframe \<Rightarrow> string \<Rightarrow> string \<Rightarrow> row list" where
  "format_rows T p f = filter (\<lambda>r. cell_at r ''format'' = StrV f) (player_rows T p)"

definition format_column :: "dataframe \<Rightarrow> cell list" where
  "format_column R = map (\<lambda>r. cell_at r ''format'') (rows R)"

text \<open>
  What \<^verbatim>\<open>get_stats\<close> returns for a player with rows, written out: the keys, the summed
  columns and the row of one key.
\<close>

definition agg_keys :: "dataframe \<Rightarrow> string \<Rightarrow> string list" where
  "agg_keys T p = sort (remdups (str_keys (map (\<lambda>r. cell_at r ''format'') (player_rows T p))))"

definition agg_columns :: "dataframe \<Rightarrow> (string \<times> dtype) list" where
  "agg_columns T = filter (\<lambda>(n, t). n \<noteq> ''format'' \<and> t \<noteq> Object)
                     (filter (\<lambda>(n, t). n \<noteq> ''player'') (columns T))"

definition agg_row :: "dataframe \<Rightarrow> string \<Rightarrow> string \<Rightarrow> row" where
  "agg_row T p k = (''format'', StrV k) #
     map (\<lambda>(n, t). (n, sum_cells t (map (\<lambda>r. cell_at r n) (format_rows T p k)))) (agg_columns T)"

text \<open>
  The bar series that the aggregated frame \<open>R\<close> of a player gives for a metric: the formats
  of its rows on the x-axis, the values of the metric in these rows on the y-axis.
\<close>

definition stats_trace :: "dataframe \<Rightarrow> string \<Rightarrow> string \<Rightarrow> trace" where
  "stats_trace R metric player =
     \<lparr>bar_x = format_column R, bar_y = map (\<lambda>r. cell_at r metric) (rows R),
      bar_name = player @ '' - '' @ metric\<rparr>"

text \<open>
  The row that the chart's own grouping computes for a player and a format: like
  \<open>agg_row\<close>, but over the columns of a table whose \<^verbatim>\<open>player\<close> column has not been dropped.
\<close>

definition chart_row :: "dataframe \<Rightarrow> string \<Rightarrow> string \<Rightarrow> row" where
  "chart_row T p k = (''format'', StrV k) #
     map (\<lambda>(n, t). (n, sum_cells t (map (\<lambda>r. cell_at r n) (format_rows T p k))))
       (numeric_columns ''format'' T)"

text \<open>
  The lines of the prompt as the specification words them: a field of an aggregated row is
  printed when the row has it, and is a dash when it is missing.
\<close>

definition field_text :: "(cell \<Rightarrow> string) \<Rightarrow> row \<Rightarrow> string \<Rightarrow> string" where
  "field_text num r c = (if c \<in> set (map fst r) then py_str num (cell_at r c) else ''-'')"

definition batting_text :: "(cell \<Rightarrow> string) \<Rightarrow> row \<Rightarrow> string" where
  "batting_text num r =
     ''Batting - '' @ field_text num r ''format'' @ '': '' @ field_text num r ''runs'' @
     '' runs, Avg: '' @ field_text num r ''average_score'' @ '', SR: '' @
     field_text num r ''strike_rate'' @ newline"

definition bowling_text :: "(cell \<Rightarrow> string) \<Rightarrow> row \<Rightarrow> string" where
  "bowling_text num r =
     ''Bowling - '' @ field_text num r ''format'' @ '': '' @ field_text num r ''wk'' @
     '' wickets'' @ newline"

definition header_text :: "string \<Rightarrow> string" where
  "header_text player = newline @ ''Player: '' @ player @ newline"

definition player_text :: "(cell \<Rightarrow> string) \<Rightarrow> dataframe \<Rightarrow> dataframe \<Rightarrow> string \<Rightarrow> string" where
  "player_text num B W player =
     header_text player @ concat (map (batting_text num) (rows B)) @
     concat (map (bowling_text num) (rows W))"

section \<open>Example data\<close>

text \<open>
  The scenario of the specification: a directory with the one player 1, ``A Sharma'', an ODI
  and a TEST batting file with one row each for player 1, and no other file.
\<close>

definition sharma_directory :: dataframe where
  "sharma_directory = \<lparr>columns = [(''id'', Int64), (''player'', Object)],
                        rows = [[(''id'', IntV 1), (''player'', StrV ''A Sharma'')]]\<rparr>"

definition batting_file :: "int \<Rightarrow> int \<Rightarrow> real \<Rightarrow> real \<Rightarrow> dataframe" where
  "batting_file i r a s =
     \<lparr>columns = [(''id'', Int64), (''runs'', Int64), (''average_score'', Float64),
                 (''strike_rate'', Float64)],
      rows = [[(''id'', IntV i), (''runs'', IntV r), (''average_score'', FloatV a),
               (''strike_rate'', FloatV s)]]\<rparr>"

definition sharma_files :: files where
  "sharma_files path =
     (if path = ''archive (2)/all_players.csv'' then Inr sharma_directory
      else if path = ''archive (2)/ODI_batting.csv'' then Inr (batting_file 1 50 50 80)
      else if path = ''archive (2)/TEST_batting.csv'' then Inr (batting_file 1 30 30 40)
      else Inl IOError)"

text \<open>The two rows that the specification's scenario expects of the aggregation.\<close>

definition expected_sharma_rows :: "row list" where
  "expected_sharma_rows =
     [[(''format'', StrV ''ODI''), (''runs'', IntV 50), (''average_score'', FloatV 50),
       (''strike_rate'', FloatV 80)],
      [(''format'', StrV ''TEST''), (''runs'', IntV 30), (''average_score'', FloatV 30),
       (''strike_rate'', FloatV 40)]]"

text \<open>
  A table in which a player has two ODI rows with the identifier \<open>2^62\<close>, as the loader
  builds it from an ODI file with two rows of that identifier.
\<close>

definition big_id_table :: dataframe where
  "big_id_table =
     \<lparr>columns = [(''id'', Int64), (''player'', Object), (''format'', Object)],
      rows = [[(''id'', IntV 4611686018427387904), (''player'', StrV ''A Sharma''),
               (''format'', StrV ''ODI'')],
              [(''id'', IntV 4611686018427387904), (''player'', StrV ''A Sharma''),
               (''format'', StrV ''ODI'')]]\<rparr>"

text \<open>
  A batting table without the column \<^verbatim>\<open>strike_rate\<close> and a bowling table, as the loader
  builds them from files with these columns.
\<close>

definition summary_batting_table :: dataframe where
  "summary_batting_table =
     \<lparr>columns = [(''id'', Int64), (''runs'', Int64), (''average_score'', Float64),
                 (''player'', Object), (''format'', Object)],
      rows = [[(''id'', IntV 1), (''runs'', IntV 50), (''average_score'', FloatV 50),
               (''player'', StrV ''A Sharma''), (''format'', StrV ''ODI'')]]\<rparr>"

definition summary_bowling_table :: dataframe where
  "summary_bowling_table =
     \<lparr>columns = [(''id'', Int64), (''wk'', Int64), (''player'', Object), (''format'', Object)],
      rows = [[(''id'', IntV 1), (''wk'', IntV 3), (''player'', StrV ''A Sharma''),
               (''format'', StrV ''T20'')]]\<rparr>"

text \<open>The same player with a batting file in each of the three formats.\<close>

definition three_format_files :: files where
  "three_format_files path =
     (if path = ''archive (2)/all_players.csv'' then Inr sharma_directory
      else if path = ''archive (2)/ODI_batting.csv'' then Inr (batting_file 1 50 50 80)
      else if path = ''archive (2)/TEST_batting.csv'' then Inr (batting_file 1 30 30 40)
      else if path = ''archive (2)/T20_batting.csv'' then Inr (batting_file 1 20 20 120)
      else Inl IOError)"

text \<open>
  A directory file as the data set has it, with the header \<^verbatim>\<open>Name\<close>, and one file of each
  category; the T20 bowling file has a row for identifier 2, which the directory lacks.
\<close>

definition name_directory :: dataframe where
  "name_directory = \<lparr>columns = [(''id'', Int64), (''Name'', Object)],
                      rows = [[(''id'', IntV 1), (''Name'', StrV ''A Sharma'')]]\<rparr>"

definition wk_file :: "int \<Rightarrow> int \<Rightarrow> dataframe" where
  "wk_file i w = \<lparr>columns = [(''id'', Int64), (''wk'', Int64)],
                   rows = [[(''id'', IntV i), (''wk'', IntV w)]]\<rparr>"

definition unmatched_files :: files where
  "unmatched_files path =
     (if path = ''archive (2)/all_players.csv'' then Inr name_directory
      else if path = ''archive (2)/ODI_batting.csv'' then Inr (batting_file 1 50 50 80)
      else if path = ''archive (2)/T20_bowling.csv'' then Inr (wk_file 2 3)
      else if path = ''archive (2)/ODI_all_round.csv'' then Inr (wk_file 1 4)
      else Inl IOError)"

text \<open>The same files when no identifier of a stat file is in the directory.\<close>

definition all_unmatched_files :: files where
  "all_unmatched_files path =
     (if path = ''archive (2)/all_players.csv'' then Inr name_directory
      else if path = ''archive (2)/ODI_batting.csv'' then Inr (batting_file 2 50 50 80)
      else if path = ''archive (2)/T20_bowling.csv'' then Inr (wk_file 2 3)
      else if path = ''archive (2)/ODI_all_round.csv'' then Inr (wk_file 2 4)
      else Inl IOError)"

text \<open>The directory file cannot be read; one batting file can.\<close>

definition no_directory_files :: files where
  "no_directory_files path =
     (if path = ''archive (2)/ODI_batting.csv'' then Inr (batting_file 1 50 50 80)
      else Inl IOError)"

section \<open>Lemmas on frames\<close>

lemma wrap64_fits: "- (2 ^ 63) \<le> x \<Longrightarrow> x < 2 ^ 63 \<Longrightarrow> wrap64 x = x"
  by (simp add: wrap64_def)

lemma wrap64_add: "wrap64 (wrap64 a + b) = wrap64 (a + b)"
proof -
  have "(wrap64 a + b + 2 ^ 63) mod 2 ^ 64 = (a + b + 2 ^ 63) mod 2 ^ 64"
    unfolding wrap64_def by (simp add: algebra_simps mod_simps)
  then show ?thesis
    by (simp add: wrap64_def)
qed

lemma map_of_drop_key:
  "map_of (filter (\<lambda>(n, v). n \<noteq> c) r) k = (if k = c then None else map_of r k)"
  by (induction r) auto

lemma cell_at_drop_key:
  "k \<noteq> c \<Longrightarrow> cell_at (filter (\<lambda>(n, v). n \<noteq> c) r) k = cell_at r k"
  by (simp add: cell_at_def map_of_drop_key)

lemma map_of_filter_keep:
  "map_of cols k = Some v \<Longrightarrow> P (k, v) \<Longrightarrow> map_of (filter P cols) k = Some v"
  by (induction cols) (auto split: if_splits)

lemma map_of_map_snd:
  "map_of (map (\<lambda>(n, t). (n, g n t)) cols) k = map_option (g k) (map_of cols k)"
  by (induction cols) auto

lemma str_keys_set: "set (str_keys cs) = {s. StrV s \<in> set cs}"
  by (induction cs) (auto simp: str_keys_def split: cell.splits)

lemma filter_eq_single: "distinct ks \<Longrightarrow> f \<in> set ks \<Longrightarrow> filter (\<lambda>k. k = f) ks = [f]"
  by (induction ks) (auto simp: filter_empty_conv)

lemma drop_player_format_rows:
  "filter (\<lambda>r. cell_at r ''format'' = StrV k) (map (filter (\<lambda>(n, v). n \<noteq> ''player'')) rs)
     = map (filter (\<lambda>(n, v). n \<noteq> ''player'')) (filter (\<lambda>r. cell_at r ''format'' = StrV k) rs)"
  by (induction rs) (simp_all add: cell_at_drop_key)

lemma agg_cell_drop_player:
  assumes "(n, t) \<in> set (agg_columns T)"
  shows "map (\<lambda>r. cell_at r n) (map (filter (\<lambda>(n, v). n \<noteq> ''player'')) rs) = map (\<lambda>r. cell_at r n) rs"
proof -
  from assms have "n \<noteq> ''player''" by (auto simp: agg_columns_def)
  then show ?thesis by (simp add: cell_at_drop_key)
qed

section \<open>What the aggregator returns\<close>

lemma get_stats_present:
  assumes "''player'' \<in> set (names T)" "''format'' \<in> set (names T)" "player_rows T p \<noteq> []"
  shows "get_stats T p = Inr \<lparr>columns = (''format'', Object) # agg_columns T,
                              rows = map (agg_row T p) (agg_keys T p)\<rparr>"
proof -
  from assms(3) obtain r where r: "r \<in> set (rows T)" "cell_at r ''player'' = StrV p"
    by (auto simp: player_rows_def filter_empty_conv)
  then have ne: "\<not> df_empty T" using assms(1)
    by (auto simp: df_empty_def names_def)
  have mem: "StrV p \<in> set (map (\<lambda>r. cell_at r ''player'') (rows T))"
    using r by force
  have fmt: "''format'' \<in> set (map fst (filter (\<lambda>(n, t). n \<noteq> ''player'') (columns T)))"
    using assms(2) by (auto simp: names_def)
  have keys: "map (\<lambda>r. cell_at r ''format'') (map (filter (\<lambda>(n, v). n \<noteq> ''player'')) rs)
              = map (\<lambda>r. cell_at r ''format'') rs" for rs
    by (simp add: cell_at_drop_key)
  have roweq: "(''format'', StrV k) #
       map (\<lambda>(n, t). (n, sum_cells t (map (\<lambda>r. cell_at r n)
              (filter (\<lambda>r. cell_at r ''format'' = StrV k)
                 (map (filter (\<lambda>(n, v). n \<noteq> ''player'')) (player_rows T p)))))) (agg_columns T)
       = agg_row T p k" for k
    unfolding agg_row_def format_rows_def drop_player_format_rows
    using agg_cell_drop_player [of _ _ T] by (auto simp del: map_map)
  have "get_stats T p = Inr
     \<lparr>columns = (''format'', Object) # agg_columns T,
      rows = map (\<lambda>k. (''format'', StrV k) #
                 map (\<lambda>(n, t). (n, sum_cells t (map (\<lambda>r. cell_at r n)
                        (filter (\<lambda>r. cell_at r ''format'' = StrV k)
                           (map (filter (\<lambda>(n, v). n \<noteq> ''player'')) (player_rows T p))))))
                   (agg_columns T))
             (sort (remdups (str_keys (map (\<lambda>r. cell_at r ''format'')
                (map (filter (\<lambda>(n, v). n \<noteq> ''player'')) (player_rows T p))))))\<rparr>"
    using ne mem assms(1) fmt
    by (simp add: get_stats_def getcol_def drop_column_def select_rows_def groupby_sum_def
        names_def group_keys_def numeric_columns_def group_rows_def player_rows_def agg_columns_def)
  then show ?thesis
    unfolding roweq keys agg_keys_def by simp
qed

lemma get_stats_cases:
  assumes "get_stats T p = Inr R"
  shows "R = empty_df \<or>
         (''player'' \<in> set (names T) \<and> ''format'' \<in> set (names T) \<and> player_rows T p \<noteq> [])"
proof (cases "df_empty T")
  case True
  with assms show ?thesis by (simp add: get_stats_def)
next
  case ne: False
  show ?thesis
  proof (cases "''player'' \<in> set (names T)")
    case False
    with assms ne show ?thesis by (simp add: get_stats_def getcol_def)
  next
    case pl: True
    show ?thesis
    proof (cases "StrV p \<in> set (map (\<lambda>r. cell_at r ''player'') (rows T))")
      case False
      with assms ne pl show ?thesis by (simp add: get_stats_def getcol_def)
    next
      case True
      then have pr: "player_rows T p \<noteq> []"
        by (auto simp: player_rows_def filter_empty_conv)
      have "''format'' \<in> set (names T)"
      proof (rule ccontr)
        assume nf: "''format'' \<notin> set (names T)"
        then have "''format'' \<notin> set (map fst (filter (\<lambda>(n, t). n \<noteq> ''player'') (columns T)))"
          by (auto simp: names_def)
        with assms ne pl True show False
          by (simp add: get_stats_def getcol_def drop_column_def select_rows_def groupby_sum_def
              names_def)
      qed
      with pl pr show ?thesis by simp
    qed
  qed
qed

lemma get_stats_no_rows:
  assumes "df_empty T \<or> ''player'' \<in> set (names T)" "player_rows T p = []"
  shows "get_stats T p = Inr empty_df"
proof -
  from assms(2) have "StrV p \<notin> set (map (\<lambda>r. cell_at r ''player'') (rows T))"
    by (auto simp: player_rows_def filter_empty_conv)
  with assms(1) show ?thesis
    by (auto simp: get_stats_def getcol_def)
qed

lemma agg_keys_set: "set (agg_keys T p) = {f. format_rows T p f \<noteq> []}"
  by (force simp: agg_keys_def str_keys_set format_rows_def filter_empty_conv)

lemma agg_keys_sorted: "sorted_wrt (<) (agg_keys T p)"
  by (simp add: agg_keys_def strict_sorted_iff)

lemma agg_keys_distinct: "distinct (agg_keys T p)"
  by (simp add: agg_keys_def)

lemma agg_row_format: "cell_at (agg_row T p k) ''format'' = StrV k"
  by (simp add: agg_row_def cell_at_def)

lemma agg_rows_format_column:
  "map (\<lambda>r. cell_at r ''format'') (map (agg_row T p) ks) = map StrV ks"
  by (simp add: agg_row_format)

lemma agg_row_cell:
  assumes "map_of (columns T) c = Some t" "t \<noteq> Object" "c \<noteq> ''player''" "c \<noteq> ''format''"
  shows "cell_at (agg_row T p k) c = sum_cells t (map (\<lambda>r. cell_at r c) (format_rows T p k))"
proof -
  have "map_of (agg_columns T) c = Some t"
    unfolding agg_columns_def using assms
    by (intro map_of_filter_keep) simp_all
  then show ?thesis
    using assms(4) by (simp add: agg_row_def cell_at_def map_of_map_snd)
qed

lemma agg_rows_of_format:
  assumes "format_rows T p f \<noteq> []"
  shows "filter (\<lambda>r. cell_at r ''format'' = StrV f) (map (agg_row T p) (agg_keys T p)) = [agg_row T p f]"
proof -
  have "f \<in> set (agg_keys T p)" using assms by (simp add: agg_keys_set)
  then have "filter (\<lambda>k. k = f) (agg_keys T p) = [f]"
    by (simp add: filter_eq_single agg_keys_distinct)
  then show ?thesis
    by (simp add: filter_map comp_def agg_row_format)
qed

lemma format_rows_subset: "set (format_rows T p f) \<subseteq> set (player_rows T p)"
  by (auto simp: format_rows_def)

section \<open>The examples, evaluated\<close>

lemma sharma_batting_table:
  "batting_df (load_tables sharma_files) =
   \<lparr>columns = [(''id'', Int64), (''runs'', Int64), (''average_score'', Float64),
               (''strike_rate'', Float64), (''player'', Object), (''format'', Object)],
     rows = [[(''id'', IntV 1), (''runs'', IntV 50), (''average_score'', FloatV 50),
              (''strike_rate'', FloatV 80), (''player'', StrV ''A Sharma''), (''format'', StrV ''ODI'')],
             [(''id'', IntV 1), (''runs'', IntV 30), (''average_score'', FloatV 30),
              (''strike_rate'', FloatV 40), (''player'', StrV ''A Sharma''), (''format'', StrV ''TEST'')]]\<rparr>"
  by code_simp

lemma sharma_stats:
  "get_stats (batting_df (load_tables sharma_files)) ''A Sharma'' =
   Inr \<lparr>columns = [(''format'', Object), (''id'', Int64), (''runs'', Int64),
                   (''average_score'', Float64), (''strike_rate'', Float64)],
         rows = [[(''format'', StrV ''ODI''), (''id'', IntV 1), (''runs'', IntV 50),
                  (''average_score'', FloatV 50), (''strike_rate'', FloatV 80)],
                 [(''format'', StrV ''TEST''), (''id'', IntV 1), (''runs'', IntV 30),
                  (''average_score'', FloatV 30), (''strike_rate'', FloatV 40)]]\<rparr>"
  by code_simp

lemma sharma_stats_lower_case:
  "get_stats (batting_df (load_tables sharma_files)) ''a sharma'' = Inr empty_df"
  by code_simp

lemma three_format_table:
  "batting_df (load_tables three_format_files) =
   \<lparr>columns = [(''id'', Int64), (''runs'', Int64), (''average_score'', Float64),
               (''strike_rate'', Float64), (''player'', Object), (''format'', Object)],
     rows = [[(''id'', IntV 1), (''runs'', IntV 50), (''average_score'', FloatV 50),
              (''strike_rate'', FloatV 80), (''player'', StrV ''A Sharma''), (''format'', StrV ''ODI'')],
             [(''id'', IntV 1), (''runs'', IntV 30), (''average_score'', FloatV 30),
              (''strike_rate'', FloatV 40), (''player'', StrV ''A Sharma''), (''format'', StrV ''TEST'')],
             [(''id'', IntV 1), (''runs'', IntV 20), (''average_score'', FloatV 20),
              (''strike_rate'', FloatV 120), (''player'', StrV ''A Sharma''), (''format'', StrV ''T20'')]]\<rparr>"
  by code_simp

lemma three_format_stats:
  "get_stats (batting_df (load_tables three_format_files)) ''A Sharma'' =
   Inr \<lparr>columns = [(''format'', Object), (''id'', Int64), (''runs'', Int64),
                   (''average_score'', Float64), (''strike_rate'', Float64)],
         rows = [[(''format'', StrV ''ODI''), (''id'', IntV 1), (''runs'', IntV 50),
                  (''average_score'', FloatV 50), (''strike_rate'', FloatV 80)],
                 [(''format'', StrV ''T20''), (''id'', IntV 1), (''runs'', IntV 20),
                  (''average_score'', FloatV 20), (''strike_rate'', FloatV 120)],
                 [(''format'', StrV ''TEST''), (''id'', IntV 1), (''runs'', IntV 30),
                  (''average_score'', FloatV 30), (''strike_rate'', FloatV 40)]]\<rparr>"
  by code_simp

section \<open>Properties of the aggregator\<close>

text \<open>
  C3. If the table is empty, or it has a \<^verbatim>\<open>player\<close> column in which the name does not
  occur, \<^verbatim>\<open>get_stats\<close> returns the empty frame: it returns, and raises nothing.
\<close>

theorem get_stats_absent_player:
  assumes "df_empty T \<or> (''player'' \<in> set (names T) \<and> StrV p \<notin> (\<lambda>r. cell_at r ''player'') ` set (rows T))"
  shows "get_stats T p = Inr empty_df"
  using assms by (auto simp: get_stats_def getcol_def)

theorem get_stats_absent_player_witness:
  "''player'' \<in> set (names \<lparr>columns = [(''id'', Int64), (''player'', Object), (''format'', Object)],
        rows = [[(''id'', IntV 1), (''player'', StrV ''A Sharma''), (''format'', StrV ''ODI'')]]\<rparr>)
   \<and> get_stats \<lparr>columns = [(''id'', Int64), (''player'', Object), (''format'', Object)],
        rows = [[(''id'', IntV 1), (''player'', StrV ''A Sharma''), (''format'', StrV ''ODI'')]]\<rparr>
        ''a sharma'' = Inr empty_df"
  using get_stats_absent_player [of
      "\<lparr>columns = [(''id'', Int64), (''player'', Object), (''format'', Object)],
        rows = [[(''id'', IntV 1), (''player'', StrV ''A Sharma''), (''format'', StrV ''ODI'')]]\<rparr>"
      "''a sharma''"]
  by (simp add: names_def cell_at_def)

text \<open>
  C4. Whenever \<^verbatim>\<open>get_stats\<close> returns a frame for a table and a player, no two of its rows
  have the same format, and the format of each of its rows is the format of some row of that
  player in the table. It does return a frame on every table that is empty or has the columns
  \<^verbatim>\<open>player\<close> and \<^verbatim>\<open>format\<close>, which the loader's tables with rows have.
\<close>

theorem get_stats_one_row_per_format:
  "(get_stats T p = Inr R \<longrightarrow>
      distinct (format_column R) \<and>
      set (format_column R) \<subseteq> (\<lambda>r. cell_at r ''format'') ` set (player_rows T p))
   \<and> (df_empty T \<or> (''player'' \<in> set (names T) \<and> ''format'' \<in> set (names T)) \<longrightarrow>
      (\<exists>R'. get_stats T p = Inr R'))"
proof (intro conjI impI)
  assume res: "get_stats T p = Inr R"
  from get_stats_cases [OF res] show "distinct (format_column R)"
  proof
    assume "R = empty_df"
    then show ?thesis by (simp add: format_column_def empty_df_def)
  next
    assume h: "''player'' \<in> set (names T) \<and> ''format'' \<in> set (names T) \<and> player_rows T p \<noteq> []"
    then have "R = \<lparr>columns = (''format'', Object) # agg_columns T,
                    rows = map (agg_row T p) (agg_keys T p)\<rparr>"
      using get_stats_present [of T p] res by simp
    then have "format_column R = map StrV (agg_keys T p)"
      by (simp add: format_column_def agg_row_format)
    then show ?thesis
      by (simp add: distinct_map agg_keys_distinct inj_on_def)
  qed
  from get_stats_cases [OF res]
  show "set (format_column R) \<subseteq> (\<lambda>r. cell_at r ''format'') ` set (player_rows T p)"
  proof
    assume "R = empty_df"
    then show ?thesis by (simp add: format_column_def empty_df_def)
  next
    assume h: "''player'' \<in> set (names T) \<and> ''format'' \<in> set (names T) \<and> player_rows T p \<noteq> []"
    then have "R = \<lparr>columns = (''format'', Object) # agg_columns T,
                    rows = map (agg_row T p) (agg_keys T p)\<rparr>"
      using get_stats_present [of T p] res by simp
    then have fc: "format_column R = map StrV (agg_keys T p)"
      by (simp add: format_column_def agg_row_format)
    show ?thesis
    proof
      fix c assume "c \<in> set (format_column R)"
      then obtain k where k: "c = StrV k" "k \<in> set (agg_keys T p)"
        using fc by auto
      then have "format_rows T p k \<noteq> []" by (simp add: agg_keys_set)
      then obtain r where "r \<in> set (player_rows T p)" "cell_at r ''format'' = StrV k"
        by (auto simp: format_rows_def filter_empty_conv)
      then show "c \<in> (\<lambda>r. cell_at r ''format'') ` set (player_rows T p)"
        using k(1) by force
    qed
  qed
next
  assume wf: "df_empty T \<or> (''player'' \<in> set (names T) \<and> ''format'' \<in> set (names T))"
  show "\<exists>R'. get_stats T p = Inr R'"
  proof (cases "player_rows T p = []")
    case True
    with wf have "get_stats T p = Inr empty_df"
      by (intro get_stats_no_rows) auto
    then show ?thesis by blast
  next
    case False
    show ?thesis
    proof (cases "df_empty T")
      case True
      then show ?thesis by (simp add: get_stats_def)
    next
      case False
      with wf have "''player'' \<in> set (names T)" "''format'' \<in> set (names T)" by auto
      from get_stats_present [OF this \<open>player_rows T p \<noteq> []\<close>] show ?thesis by blast
    qed
  qed
qed

theorem get_stats_one_row_per_format_witness:
  "distinct [StrV ''ODI'', StrV ''T20'', StrV ''TEST'']
   \<and> set [StrV ''ODI'', StrV ''T20'', StrV ''TEST'']
       \<subseteq> (\<lambda>r. cell_at r ''format'') `
           set (player_rows (batting_df (load_tables three_format_files)) ''A Sharma'')
   \<and> (\<exists>R'. get_stats (batting_df (load_tables three_format_files)) ''A Sharma'' = Inr R')"
proof -
  have wf: "''player'' \<in> set (names (batting_df (load_tables three_format_files)))
            \<and> ''format'' \<in> set (names (batting_df (load_tables three_format_files)))"
    by (simp add: three_format_table names_def)
  show ?thesis
    using get_stats_one_row_per_format
      [of "batting_df (load_tables three_format_files)" "''A Sharma''"
          "\<lparr>columns = [(''format'', Object), (''id'', Int64), (''runs'', Int64),
                   (''average_score'', Float64), (''strike_rate'', Float64)],
         rows = [[(''format'', StrV ''ODI''), (''id'', IntV 1), (''runs'', IntV 50),
                  (''average_score'', FloatV 50), (''strike_rate'', FloatV 80)],
                 [(''format'', StrV ''T20''), (''id'', IntV 1), (''runs'', IntV 20),
                  (''average_score'', FloatV 20), (''strike_rate'', FloatV 120)],
                 [(''format'', StrV ''TEST''), (''id'', IntV 1), (''runs'', IntV 30),
                  (''average_score'', FloatV 30), (''strike_rate'', FloatV 40)]]\<rparr>"]
      three_format_stats wf
    by (simp add: format_column_def cell_at_def)
qed

text \<open>
  C9. For a player with rows in a table that has the columns \<^verbatim>\<open>player\<close> and
  \<^verbatim>\<open>format\<close>, \<^verbatim>\<open>get_stats\<close> returns a frame whose format values are strings in strictly
  ascending lexicographic order. This is not the order of the input rows: the loader's
  table has ODI, TEST, T20 and the aggregation has ODI, T20, TEST.
\<close>

theorem get_stats_sorted_by_format:
  "(''player'' \<in> set (names T) \<and> ''format'' \<in> set (names T) \<and> player_rows T p \<noteq> [] \<longrightarrow>
      (\<exists>R ks. get_stats T p = Inr R \<and> format_column R = map StrV ks \<and> sorted_wrt (<) ks))
   \<and> format_column (batting_df (load_tables three_format_files))
        = [StrV ''ODI'', StrV ''TEST'', StrV ''T20'']
   \<and> (\<exists>R. get_stats (batting_df (load_tables three_format_files)) ''A Sharma'' = Inr R
          \<and> format_column R = [StrV ''ODI'', StrV ''T20'', StrV ''TEST''])"
proof (intro conjI impI)
  assume h: "''player'' \<in> set (names T) \<and> ''format'' \<in> set (names T) \<and> player_rows T p \<noteq> []"
  then have "get_stats T p = Inr \<lparr>columns = (''format'', Object) # agg_columns T,
                                  rows = map (agg_row T p) (agg_keys T p)\<rparr>"
    using get_stats_present [of T p] by simp
  moreover have "format_column \<lparr>columns = (''format'', Object) # agg_columns T,
                                rows = map (agg_row T p) (agg_keys T p)\<rparr> = map StrV (agg_keys T p)"
    by (simp add: format_column_def agg_row_format)
  ultimately show "\<exists>R ks. get_stats T p = Inr R \<and> format_column R = map StrV ks \<and> sorted_wrt (<) ks"
    using agg_keys_sorted [of T p] by blast
next
  show "format_column (batting_df (load_tables three_format_files))
        = [StrV ''ODI'', StrV ''TEST'', StrV ''T20'']"
    by (simp add: three_format_table format_column_def cell_at_def)
next
  show "\<exists>R. get_stats (batting_df (load_tables three_format_files)) ''A Sharma'' = Inr R
          \<and> format_column R = [StrV ''ODI'', StrV ''T20'', StrV ''TEST'']"
    by (simp add: three_format_stats format_column_def cell_at_def)
qed

theorem get_stats_sorted_by_format_witness:
  "\<exists>R ks. get_stats (batting_df (load_tables sharma_files)) ''A Sharma'' = Inr R
      \<and> format_column R = map StrV ks \<and> sorted_wrt (<) ks"
proof -
  have "''player'' \<in> set (names (batting_df (load_tables sharma_files)))
        \<and> ''format'' \<in> set (names (batting_df (load_tables sharma_files)))
        \<and> player_rows (batting_df (load_tables sharma_files)) ''A Sharma'' \<noteq> []"
    by (simp add: sharma_batting_table names_def player_rows_def cell_at_def)
  then show ?thesis
    using get_stats_sorted_by_format [of "batting_df (load_tables sharma_files)" "''A Sharma''"]
    by blast
qed

text \<open>
  C10. The identifier is summed like a metric, but in \<^verbatim>\<open>int64\<close> arithmetic: two ODI rows
  with the identifier \<open>2^62\<close> aggregate to \<open>id = -2^63\<close>, not to \<open>2 * 2^62\<close>.
\<close>

theorem get_stats_sums_identifier_counterexample:
  "map (\<lambda>r. cell_at r ''id'') (format_rows big_id_table ''A Sharma'' ''ODI'')
     = [IntV 4611686018427387904, IntV 4611686018427387904]
   \<and> get_stats big_id_table ''A Sharma'' =
       Inr \<lparr>columns = [(''format'', Object), (''id'', Int64)],
             rows = [[(''format'', StrV ''ODI''), (''id'', IntV (- 9223372036854775808))]]\<rparr>
   \<and> IntV (- 9223372036854775808) \<noteq> IntV (2 * 4611686018427387904)"
proof (intro conjI)
  show "map (\<lambda>r. cell_at r ''id'') (format_rows big_id_table ''A Sharma'' ''ODI'')
     = [IntV 4611686018427387904, IntV 4611686018427387904]"
    by (simp add: big_id_table_def format_rows_def player_rows_def cell_at_def)
  show "get_stats big_id_table ''A Sharma'' =
       Inr \<lparr>columns = [(''format'', Object), (''id'', Int64)],
             rows = [[(''format'', StrV ''ODI''), (''id'', IntV (- 9223372036854775808))]]\<rparr>"
    by code_simp
  show "IntV (- 9223372036854775808) \<noteq> IntV (2 * 4611686018427387904)"
    by simp
qed

text \<open>
  C10, amended. In a table with the columns \<^verbatim>\<open>player\<close> and \<^verbatim>\<open>format\<close> and an integer
  column \<^verbatim>\<open>id\<close>, let a player have \<open>n > 0\<close> rows of one format, each with the identifier
  \<open>i\<close>. Then \<^verbatim>\<open>get_stats\<close> returns a frame that has a column \<^verbatim>\<open>id\<close>, and whose one
  row of that format has for \<^verbatim>\<open>id\<close> the product \<open>n * i\<close> wrapped around into the 64-bit
  range: \<open>n * i\<close> itself whenever that lies between \<open>-2^63\<close> and \<open>2^63 - 1\<close>.
\<close>

theorem get_stats_sums_identifier:
  assumes "''player'' \<in> set (names T)" and "''format'' \<in> set (names T)"
    and "map_of (columns T) ''id'' = Some Int64"
    and "format_rows T p f \<noteq> []"
    and "\<forall>r \<in> set (format_rows T p f). cell_at r ''id'' = IntV i"
  shows "\<exists>R r. get_stats T p = Inr R \<and> ''id'' \<in> set (names R)
           \<and> filter (\<lambda>r. cell_at r ''format'' = StrV f) (rows R) = [r]
           \<and> cell_at r ''id'' = IntV (wrap64 (int (length (format_rows T p f)) * i))
           \<and> (- (2 ^ 63) \<le> int (length (format_rows T p f)) * i
                \<and> int (length (format_rows T p f)) * i < 2 ^ 63 \<longrightarrow>
              cell_at r ''id'' = IntV (int (length (format_rows T p f)) * i))"
proof -
  have pr: "player_rows T p \<noteq> []"
    using assms(4) by (auto simp: format_rows_def)
  have res: "get_stats T p = Inr \<lparr>columns = (''format'', Object) # agg_columns T,
                                  rows = map (agg_row T p) (agg_keys T p)\<rparr>"
    using get_stats_present [OF assms(1,2) pr] .
  have "map_of (agg_columns T) ''id'' = Some Int64"
    unfolding agg_columns_def using assms(3)
    by (intro map_of_filter_keep) simp_all
  then have idcol: "''id'' \<in> set (map fst (agg_columns T))"
    by (metis map_of_eq_None_iff option.distinct(1) set_map)
  have "map (\<lambda>r. cell_at r ''id'') (format_rows T p f)
          = replicate (length (format_rows T p f)) (IntV i)"
    using assms(5) by (simp add: map_replicate_const [symmetric] cong: map_cong)
  then have "sum_cells Int64 (map (\<lambda>r. cell_at r ''id'') (format_rows T p f))
          = IntV (wrap64 (int (length (format_rows T p f)) * i))"
    by (simp add: sum_list_replicate)
  then have cell: "cell_at (agg_row T p f) ''id''
          = IntV (wrap64 (int (length (format_rows T p f)) * i))"
    using agg_row_cell [OF assms(3), of p f] by simp
  have fits: "- (2 ^ 63) \<le> int (length (format_rows T p f)) * i
                \<and> int (length (format_rows T p f)) * i < 2 ^ 63 \<longrightarrow>
              cell_at (agg_row T p f) ''id'' = IntV (int (length (format_rows T p f)) * i)"
    using cell by (simp add: wrap64_fits)
  show ?thesis
    using res idcol agg_rows_of_format [OF assms(4)] cell fits
    by (simp add: names_def)
qed

theorem get_stats_sums_identifier_witness:
  "\<exists>R r. get_stats
       \<lparr>columns = [(''id'', Int64), (''player'', Object), (''format'', Object)],
         rows = [[(''id'', IntV 7), (''player'', StrV ''A Sharma''), (''format'', StrV ''ODI'')],
                 [(''id'', IntV 7), (''player'', StrV ''A Sharma''), (''format'', StrV ''ODI'')]]\<rparr>
       ''A Sharma'' = Inr R
     \<and> ''id'' \<in> set (names R)
     \<and> filter (\<lambda>r. cell_at r ''format'' = StrV ''ODI'') (rows R) = [r]
     \<and> cell_at r ''id'' = IntV 14"
  using get_stats_sums_identifier [of
      "\<lparr>columns = [(''id'', Int64), (''player'', Object), (''format'', Object)],
         rows = [[(''id'', IntV 7), (''player'', StrV ''A Sharma''), (''format'', StrV ''ODI'')],
                 [(''id'', IntV 7), (''player'', StrV ''A Sharma''), (''format'', StrV ''ODI'')]]\<rparr>"
      "''A Sharma''" "''ODI''" 7]
  by (simp add: names_def format_rows_def player_rows_def cell_at_def wrap64_def)

text \<open>
  C5. The sentence of the specification fails on its own example: the rows that
  \<^verbatim>\<open>get_stats\<close> returns for ``A Sharma'' are not the expected ones, whatever the order of
  the fields, since each of them also has the field \<^verbatim>\<open>id\<close>.
\<close>

theorem get_stats_example_rows_counterexample:
  "\<not> (\<exists>R. get_stats (batting_df (load_tables sharma_files)) ''A Sharma'' = Inr R
          \<and> map set (rows R) = map set expected_sharma_rows)"
proof
  assume "\<exists>R. get_stats (batting_df (load_tables sharma_files)) ''A Sharma'' = Inr R
          \<and> map set (rows R) = map set expected_sharma_rows"
  then obtain R where R: "get_stats (batting_df (load_tables sharma_files)) ''A Sharma'' = Inr R"
    and eq: "map set (rows R) = map set expected_sharma_rows"
    by blast
  from R have "(''id'', IntV 1) \<in> hd (map set (rows R))"
    using sharma_stats by auto
  with eq have "(''id'', IntV 1) \<in> hd (map set expected_sharma_rows)"
    by simp
  then show False
    by (simp add: expected_sharma_rows_def)
qed

text \<open>
  C5, amended. For a player with rows in a table that has the columns \<^verbatim>\<open>player\<close> and
  \<^verbatim>\<open>format\<close>, \<^verbatim>\<open>get_stats\<close> returns a frame with the column \<^verbatim>\<open>format\<close> and then every
  numeric column of the table other than \<^verbatim>\<open>player\<close> and \<^verbatim>\<open>format\<close>, the identifier
  included; with one row for each format that occurs among the rows whose \<^verbatim>\<open>player\<close> cell is
  exactly the name; and in the row of a format, each such column holds the sum of that column
  over the player's rows of that format. In the example the result is the two rows with
  \<^verbatim>\<open>id = 1\<close> next to the three metrics, and the name in lower case matches no row.
\<close>

theorem get_stats_filters_groups_sums:
  "(''player'' \<in> set (names T) \<and> ''format'' \<in> set (names T) \<and> player_rows T p \<noteq> [] \<longrightarrow>
     (\<exists>R. get_stats T p = Inr R
        \<and> names R = ''format'' # map fst (filter (\<lambda>(c, t). c \<noteq> ''format'' \<and> t \<noteq> Object)
                                      (filter (\<lambda>(c, t). c \<noteq> ''player'') (columns T)))
        \<and> format_column R =
            map StrV (sort (remdups (str_keys (map (\<lambda>r. cell_at r ''format'') (player_rows T p)))))
        \<and> (\<forall>f c t. format_rows T p f \<noteq> [] \<and> map_of (columns T) c = Some t \<and> t \<noteq> Object
                    \<and> c \<noteq> ''player'' \<and> c \<noteq> ''format'' \<longrightarrow>
             (\<exists>r. filter (\<lambda>r. cell_at r ''format'' = StrV f) (rows R) = [r]
                \<and> cell_at r c = sum_cells t (map (\<lambda>r. cell_at r c) (format_rows T p f))))))
   \<and> get_stats (batting_df (load_tables sharma_files)) ''A Sharma'' =
       Inr \<lparr>columns = [(''format'', Object), (''id'', Int64), (''runs'', Int64),
                       (''average_score'', Float64), (''strike_rate'', Float64)],
             rows = [[(''format'', StrV ''ODI''), (''id'', IntV 1), (''runs'', IntV 50),
                      (''average_score'', FloatV 50), (''strike_rate'', FloatV 80)],
                     [(''format'', StrV ''TEST''), (''id'', IntV 1), (''runs'', IntV 30),
                      (''average_score'', FloatV 30), (''strike_rate'', FloatV 40)]]\<rparr>
   \<and> get_stats (batting_df (load_tables sharma_files)) ''a sharma'' = Inr empty_df"
proof (intro conjI impI)
  assume h: "''player'' \<in> set (names T) \<and> ''format'' \<in> set (names T) \<and> player_rows T p \<noteq> []"
  let ?R = "\<lparr>columns = (''format'', Object) # agg_columns T,
             rows = map (agg_row T p) (agg_keys T p)\<rparr>"
  have res: "get_stats T p = Inr ?R"
    using h get_stats_present [of T p] by simp
  have cols: "names ?R = ''format'' # map fst (filter (\<lambda>(c, t). c \<noteq> ''format'' \<and> t \<noteq> Object)
                                      (filter (\<lambda>(c, t). c \<noteq> ''player'') (columns T)))"
    by (simp add: names_def agg_columns_def)
  have keys: "format_column ?R =
            map StrV (sort (remdups (str_keys (map (\<lambda>r. cell_at r ''format'') (player_rows T p)))))"
    by (simp add: format_column_def agg_row_format agg_keys_def)
  have cells: "\<forall>f c t. format_rows T p f \<noteq> [] \<and> map_of (columns T) c = Some t \<and> t \<noteq> Object
                    \<and> c \<noteq> ''player'' \<and> c \<noteq> ''format'' \<longrightarrow>
             (\<exists>r. filter (\<lambda>r. cell_at r ''format'' = StrV f) (rows ?R) = [r]
                \<and> cell_at r c = sum_cells t (map (\<lambda>r. cell_at r c) (format_rows T p f)))"
  proof (intro allI impI)
    fix f c t
    assume a: "format_rows T p f \<noteq> [] \<and> map_of (columns T) c = Some t \<and> t \<noteq> Object
                    \<and> c \<noteq> ''player'' \<and> c \<noteq> ''format''"
    then have "filter (\<lambda>r. cell_at r ''format'' = StrV f) (rows ?R) = [agg_row T p f]"
      using agg_rows_of_format [of T p f] by simp
    moreover have "cell_at (agg_row T p f) c = sum_cells t (map (\<lambda>r. cell_at r c) (format_rows T p f))"
      using a agg_row_cell [of T c t p f] by simp
    ultimately show "\<exists>r. filter (\<lambda>r. cell_at r ''format'' = StrV f) (rows ?R) = [r]
                \<and> cell_at r c = sum_cells t (map (\<lambda>r. cell_at r c) (format_rows T p f))"
      by blast
  qed
  show "\<exists>R. get_stats T p = Inr R
        \<and> names R = ''format'' # map fst (filter (\<lambda>(c, t). c \<noteq> ''format'' \<and> t \<noteq> Object)
                                      (filter (\<lambda>(c, t). c \<noteq> ''player'') (columns T)))
        \<and> format_column R =
            map StrV (sort (remdups (str_keys (map (\<lambda>r. cell_at r ''format'') (player_rows T p)))))
        \<and> (\<forall>f c t. format_rows T p f \<noteq> [] \<and> map_of (columns T) c = Some t \<and> t \<noteq> Object
                    \<and> c \<noteq> ''player'' \<and> c \<noteq> ''format'' \<longrightarrow>
             (\<exists>r. filter (\<lambda>r. cell_at r ''format'' = StrV f) (rows R) = [r]
                \<and> cell_at r c = sum_cells t (map (\<lambda>r. cell_at r c) (format_rows T p f))))"
    using res cols keys cells by blast
next
  show "get_stats (batting_df (load_tables sharma_files)) ''A Sharma'' =
       Inr \<lparr>columns = [(''format'', Object), (''id'', Int64), (''runs'', Int64),
                       (''average_score'', Float64), (''strike_rate'', Float64)],
             rows = [[(''format'', StrV ''ODI''), (''id'', IntV 1), (''runs'', IntV 50),
                      (''average_score'', FloatV 50), (''strike_rate'', FloatV 80)],
                     [(''format'', StrV ''TEST''), (''id'', IntV 1), (''runs'', IntV 30),
                      (''average_score'', FloatV 30), (''strike_rate'', FloatV 40)]]\<rparr>"
    by (rule sharma_stats)
next
  show "get_stats (batting_df (load_tables sharma_files)) ''a sharma'' = Inr empty_df"
    by (rule sharma_stats_lower_case)
qed

theorem get_stats_filters_groups_sums_witness:
  "\<exists>R. get_stats (batting_df (load_tables three_format_files)) ''A Sharma'' = Inr R
      \<and> names R = [''format'', ''id'', ''runs'', ''average_score'', ''strike_rate'']
      \<and> format_column R = [StrV ''ODI'', StrV ''T20'', StrV ''TEST'']"
proof -
  have h: "''player'' \<in> set (names (batting_df (load_tables three_format_files)))
        \<and> ''format'' \<in> set (names (batting_df (load_tables three_format_files)))
        \<and> player_rows (batting_df (load_tables three_format_files)) ''A Sharma'' \<noteq> []"
    by (simp add: three_format_table names_def player_rows_def cell_at_def)
  have c: "''format'' # map fst (filter (\<lambda>(c, t). c \<noteq> ''format'' \<and> t \<noteq> Object)
             (filter (\<lambda>(c, t). c \<noteq> ''player'') (columns (batting_df (load_tables three_format_files)))))
          = [''format'', ''id'', ''runs'', ''average_score'', ''strike_rate'']"
    by (simp add: three_format_table)
  have k: "map StrV (sort (remdups (str_keys (map (\<lambda>r. cell_at r ''format'')
             (player_rows (batting_df (load_tables three_format_files)) ''A Sharma'')))))
          = [StrV ''ODI'', StrV ''T20'', StrV ''TEST'']"
    by (simp add: three_format_table player_rows_def cell_at_def str_keys_def)
  from get_stats_filters_groups_sums
         [of "batting_df (load_tables three_format_files)" "''A Sharma''"] h
  obtain R where "get_stats (batting_df (load_tables three_format_files)) ''A Sharma'' = Inr R"
    "names R = ''format'' # map fst (filter (\<lambda>(c, t). c \<noteq> ''format'' \<and> t \<noteq> Object)
             (filter (\<lambda>(c, t). c \<noteq> ''player'') (columns (batting_df (load_tables three_format_files)))))"
    "format_column R = map StrV (sort (remdups (str_keys (map (\<lambda>r. cell_at r ''format'')
             (player_rows (batting_df (load_tables three_format_files)) ''A Sharma'')))))"
    by blast
  then show ?thesis
    unfolding c k by blast
qed

section \<open>Properties of the loader and the player index\<close>

lemma str_keys_length_le: "length (str_keys xs) \<le> length xs"
  by (induction xs) (auto simp: str_keys_def split: cell.splits)

lemma str_keys_Cons:
  "str_keys (c # cs) = (case c of StrV s \<Rightarrow> [s] | _ \<Rightarrow> []) @ str_keys cs"
  by (simp add: str_keys_def)

lemma str_keys_short:
  assumes "c \<in> set xs" and "\<forall>s. c \<noteq> StrV s"
  shows "length (str_keys xs) < length xs"
  using assms
proof (induction xs)
  case Nil
  then show ?case by simp
next
  case (Cons x xs)
  show ?case
  proof (cases "c = x")
    case True
    with Cons.prems(2) have "str_keys (x # xs) = str_keys xs"
      by (cases x) (simp_all add: str_keys_Cons)
    then show ?thesis
      using str_keys_length_le [of xs] by simp
  next
    case False
    with Cons have "length (str_keys xs) < length xs" by simp
    then show ?thesis
      by (cases x) (simp_all add: str_keys_Cons)
  qed
qed

lemma py_sorted_mixed:
  assumes "NaN \<in> set xs" and "StrV s \<in> set xs"
  shows "py_sorted xs = Inl TypeError"
proof -
  have "length (str_keys xs) < length xs"
    using str_keys_short [OF assms(1)] by simp
  moreover have "s \<in> set (str_keys xs)"
    using assms(2) by (simp add: str_keys_set)
  then have "str_keys xs \<noteq> []" by auto
  ultimately show ?thesis
    by (simp add: py_sorted_def)
qed

lemma merge_without_key: "merge_left key l empty_df = Inl (KeyError key)"
  by (simp add: merge_left_def names_def empty_df_def)

lemma load_slice_empty_directory: "\<exists>e. load_slice fs empty_df fmt category = Inl e"
  by (cases "fs (path_join data_dir (fmt @ ''_'' @ category @ ''.csv''))")
     (simp_all add: load_slice_def merge_without_key)

lemma load_format_empty_directory:
  "batting_list (load_format fs empty_df st fmt) = batting_list st
   \<and> bowling_list (load_format fs empty_df st fmt) = bowling_list st
   \<and> all_round_list (load_format fs empty_df st fmt) = all_round_list st"
proof -
  obtain e1 where e1: "load_slice fs empty_df fmt ''batting'' = Inl e1"
    using load_slice_empty_directory by blast
  obtain e2 where e2: "load_slice fs empty_df fmt ''bowling'' = Inl e2"
    using load_slice_empty_directory by blast
  obtain e3 where e3: "load_slice fs empty_df fmt ''all_round'' = Inl e3"
    using load_slice_empty_directory by blast
  show ?thesis
    by (simp add: load_format_def e1 e2 e3)
qed

lemma load_formats_empty_directory:
  "batting_list (foldl (load_format fs empty_df) st fmts) = batting_list st
   \<and> bowling_list (foldl (load_format fs empty_df) st fmts) = bowling_list st
   \<and> all_round_list (foldl (load_format fs empty_df) st fmts) = all_round_list st"
  by (induction fmts arbitrary: st) (simp_all add: load_format_empty_directory)

text \<open>
  C1. An unmatched stat row is kept, with a missing player. But nothing takes the missing
  value out of the set of player values, and sorting a set that holds NaN beside a name raises
  TypeError, outside the \<^verbatim>\<open>try\<close>: with the files \<open>unmatched_files\<close> no player index is built.
  When no stat row has a directory entry the index is built and is the missing value itself.
\<close>

theorem unmatched_row_breaks_player_index:
  "(NaN \<in> set (all_players t) \<and> StrV s \<in> set (all_players t) \<longrightarrow> player_names t = Inl TypeError)
   \<and> bowling_df (load_tables unmatched_files) =
       \<lparr>columns = [(''id'', Int64), (''wk'', Int64), (''player'', Object), (''format'', Object)],
         rows = [[(''id'', IntV 2), (''wk'', IntV 3), (''player'', NaN), (''format'', StrV ''T20'')]]\<rparr>
   \<and> all_players (load_tables unmatched_files) = [NaN, StrV ''A Sharma'']
   \<and> player_names (load_tables all_unmatched_files) = Inr [NaN]"
proof (intro conjI impI)
  assume "NaN \<in> set (all_players t) \<and> StrV s \<in> set (all_players t)"
  then show "player_names t = Inl TypeError"
    unfolding player_names_def by (intro py_sorted_mixed [of _ s]) simp_all
next
  show "bowling_df (load_tables unmatched_files) =
       \<lparr>columns = [(''id'', Int64), (''wk'', Int64), (''player'', Object), (''format'', Object)],
         rows = [[(''id'', IntV 2), (''wk'', IntV 3), (''player'', NaN), (''format'', StrV ''T20'')]]\<rparr>"
    by code_simp
next
  show "all_players (load_tables unmatched_files) = [NaN, StrV ''A Sharma'']"
    by code_simp
next
  show "player_names (load_tables all_unmatched_files) = Inr [NaN]"
    by code_simp
qed

theorem unmatched_row_breaks_player_index_witness:
  "player_names (load_tables unmatched_files) = Inl TypeError"
  using unmatched_row_breaks_player_index [of "load_tables unmatched_files" "''A Sharma''"]
  by simp

text \<open>
  C2. When the directory file cannot be read, the directory is \<^verbatim>\<open>pd.DataFrame()\<close>, which
  has no column \<^verbatim>\<open>id\<close>: every merge raises KeyError, the handler of the block reports the
  file as not loaded, and the three tables are empty whatever the stat files hold. With the
  files \<open>no_directory_files\<close> the readable ODI batting file is reported with
  \<^verbatim>\<open>KeyError('id')\<close> and its row is in no table.
\<close>

theorem unreadable_directory_drops_every_file:
  "(fs (path_join data_dir ''all_players.csv'') = Inl e \<longrightarrow>
      batting_df (load_tables fs) = empty_df \<and> bowling_df (load_tables fs) = empty_df
      \<and> all_round_df (load_tables fs) = empty_df)
   \<and> shown (load_tables no_directory_files) =
       [StError ''all_players.csv'' IOError,
        StWarning ''ODI_batting.csv'' (KeyError ''id''),
        StWarning ''ODI_bowling.csv'' IOError, StWarning ''ODI_all_round.csv'' IOError,
        StWarning ''TEST_batting.csv'' IOError, StWarning ''TEST_bowling.csv'' IOError,
        StWarning ''TEST_all_round.csv'' IOError, StWarning ''T20_batting.csv'' IOError,
        StWarning ''T20_bowling.csv'' IOError, StWarning ''T20_all_round.csv'' IOError]"
proof (intro conjI impI)
  assume "fs (path_join data_dir ''all_players.csv'') = Inl e"
  then have dir: "load_directory fs = (empty_df, [StError ''all_players.csv'' e])"
    by (simp add: load_directory_def)
  show "batting_df (load_tables fs) = empty_df"
    by (simp add: load_tables_def dir load_formats_empty_directory concat_or_empty_def)
  show "bowling_df (load_tables fs) = empty_df"
    by (simp add: load_tables_def dir load_formats_empty_directory concat_or_empty_def)
  show "all_round_df (load_tables fs) = empty_df"
    by (simp add: load_tables_def dir load_formats_empty_directory concat_or_empty_def)
next
  show "shown (load_tables no_directory_files) =
       [StError ''all_players.csv'' IOError,
        StWarning ''ODI_batting.csv'' (KeyError ''id''),
        StWarning ''ODI_bowling.csv'' IOError, StWarning ''ODI_all_round.csv'' IOError,
        StWarning ''TEST_batting.csv'' IOError, StWarning ''TEST_bowling.csv'' IOError,
        StWarning ''TEST_all_round.csv'' IOError, StWarning ''T20_batting.csv'' IOError,
        StWarning ''T20_bowling.csv'' IOError, StWarning ''T20_all_round.csv'' IOError]"
    by code_simp
qed

theorem unreadable_directory_drops_every_file_witness:
  "no_directory_files (path_join data_dir ''ODI_batting.csv'') = Inr (batting_file 1 50 50 80)
   \<and> batting_df (load_tables no_directory_files) = empty_df
   \<and> bowling_df (load_tables no_directory_files) = empty_df
   \<and> all_round_df (load_tables no_directory_files) = empty_df"
proof -
  have "no_directory_files (path_join data_dir ''all_players.csv'') = Inl IOError"
    by (simp add: no_directory_files_def path_join_def data_dir_def)
  moreover have "no_directory_files (path_join data_dir ''ODI_batting.csv'') = Inr (batting_file 1 50 50 80)"
    by (simp add: no_directory_files_def path_join_def data_dir_def)
  ultimately show ?thesis
    using unreadable_directory_drops_every_file [of no_directory_files IOError]
    by simp
qed

section \<open>Properties of the comparison view\<close>

text \<open>
  Among the rows of the selected players, the rows of one selected player are the rows of
  that player in the whole table: the chart groups the rows that the aggregator groups.
\<close>

lemma isin_then_player:
  "p \<in> set selected \<Longrightarrow>
   filter (\<lambda>r. cell_at r ''player'' = StrV p)
     (filter (\<lambda>r. cell_at r ''player'' \<in> StrV ` set selected) rs)
   = filter (\<lambda>r. cell_at r ''player'' = StrV p) rs"
  by (induction rs) auto

lemma chart_subset_present:
  assumes "''player'' \<in> set (names T)" "''format'' \<in> set (names T)" "p \<in> set selected"
  shows "chart_subset (select_rows (\<lambda>r. cell_at r ''player'' \<in> set (map StrV selected)) T) p
           = Inr \<lparr>columns = (''format'', Object) # numeric_columns ''format'' T,
                  rows = map (chart_row T p) (agg_keys T p)\<rparr>"
  using assms
  by (simp add: chart_subset_def getcol_def select_rows_def groupby_sum_def names_def
      group_keys_def group_rows_def numeric_columns_def isin_then_player chart_row_def
      agg_keys_def format_rows_def player_rows_def del: filter_filter)

lemma chart_subset_needs_format:
  assumes "chart_subset (select_rows P T) p = Inr S"
  shows "''format'' \<in> set (names T)"
  using assms
  by (auto simp: chart_subset_def getcol_def select_rows_def groupby_sum_def names_def
      split: if_splits)

lemma map_of_numeric_drop_player:
  "m \<noteq> ''player'' \<Longrightarrow>
   map_of (filter (\<lambda>(n, t). n \<noteq> ''format'' \<and> t \<noteq> Object)
             (filter (\<lambda>(n, t). n \<noteq> ''player'') cols)) m
   = map_of (filter (\<lambda>(n, t). n \<noteq> ''format'' \<and> t \<noteq> Object) cols) m"
  by (induction cols) auto

lemma agg_columns_lookup:
  "m \<noteq> ''player'' \<Longrightarrow> map_of (agg_columns T) m = map_of (numeric_columns ''format'' T) m"
  unfolding agg_columns_def numeric_columns_def by (rule map_of_numeric_drop_player)

lemma chart_row_cell:
  assumes "m \<noteq> ''player''"
  shows "cell_at (chart_row T p k) m = cell_at (agg_row T p k) m"
  using agg_columns_lookup [OF assms, of T]
  by (simp add: chart_row_def agg_row_def cell_at_def map_of_map_snd)

lemma agg_keys_no_rows: "player_rows T p = [] \<Longrightarrow> agg_keys T p = []"
  by (simp add: agg_keys_def str_keys_def)

lemma get_stats_rows:
  assumes "''player'' \<in> set (names T)" "''format'' \<in> set (names T)"
  shows "\<exists>R. get_stats T p = Inr R \<and> rows R = map (agg_row T p) (agg_keys T p)"
proof (cases "player_rows T p = []")
  case True
  then show ?thesis
    using get_stats_no_rows [of T p] assms(1) by (simp add: agg_keys_no_rows empty_df_def)
next
  case False
  then show ?thesis
    using get_stats_present [OF assms False] by simp
qed

lemma bar_of_chart_rows:
  assumes "bar \<lparr>columns = cols, rows = map (chart_row T p) ks\<rparr> m p = Inr t" "m \<noteq> ''player''"
    and "rows R = map (agg_row T p) ks"
  shows "t = stats_trace R m p"
  using assms
  by (auto simp: bar_def getcol_def stats_trace_def format_column_def chart_row_cell
      split: if_splits)


lemma add_player_traces_result:
  assumes "\<And>p S t. p \<in> set ps \<Longrightarrow> chart_subset C p = Inr S \<Longrightarrow> bar S m p = Inr t \<Longrightarrow> t = g p"
    and "add_player_traces C m ps acc = Inr fig"
  shows "fig = acc @ map g ps"
  using assms
proof (induction ps arbitrary: acc)
  case Nil
  then show ?case by simp
next
  case (Cons p ps)
  from Cons.prems(2) obtain S t where S: "chart_subset C p = Inr S" and t: "bar S m p = Inr t"
    and rest: "add_player_traces C m ps (acc @ [t]) = Inr fig"
    by (auto split: sum.splits)
  have "t = g p"
    using Cons.prems(1) [of p S t] S t by simp
  moreover have "fig = (acc @ [t]) @ map g ps"
    using Cons.IH [OF _ rest] Cons.prems(1) by simp
  ultimately show ?case by simp
qed

lemma add_metric_traces_result:
  assumes "\<And>m p S t. m \<in> set ms \<Longrightarrow> p \<in> set ps \<Longrightarrow> chart_subset C p = Inr S \<Longrightarrow>
             bar S m p = Inr t \<Longrightarrow> t = g m p"
    and "add_metric_traces C ms ps acc = Inr fig"
  shows "fig = acc @ concat (map (\<lambda>m. map (g m) ps) ms)"
  using assms
proof (induction ms arbitrary: acc)
  case Nil
  then show ?case by simp
next
  case (Cons m ms)
  from Cons.prems(2) obtain fig' where one: "add_player_traces C m ps acc = Inr fig'"
    and rest: "add_metric_traces C ms ps fig' = Inr fig"
    by (auto split: sum.splits)
  have "fig' = acc @ map (g m) ps"
    using one Cons.prems(1) [of m] by (intro add_player_traces_result [of ps C m]) simp_all
  moreover have "fig = fig' @ concat (map (\<lambda>m. map (g m) ps) ms)"
    using Cons.IH [OF _ rest] Cons.prems(1) by simp
  ultimately show ?case by simp
qed

lemma add_player_traces_total:
  assumes "\<And>p. p \<in> set ps \<Longrightarrow> \<exists>S t. chart_subset C p = Inr S \<and> bar S m p = Inr t"
  shows "\<exists>fig. add_player_traces C m ps acc = Inr fig"
  using assms
proof (induction ps arbitrary: acc)
  case Nil
  show ?case by simp
next
  case (Cons p ps)
  from Cons.prems [of p] obtain S t where "chart_subset C p = Inr S" "bar S m p = Inr t"
    by auto
  then show ?case
    using Cons.IH [of "acc @ [t]"] Cons.prems by simp
qed

lemma add_metric_traces_total:
  assumes "\<And>m p. m \<in> set ms \<Longrightarrow> p \<in> set ps \<Longrightarrow>
             \<exists>S t. chart_subset C p = Inr S \<and> bar S m p = Inr t"
  shows "\<exists>fig. add_metric_traces C ms ps acc = Inr fig"
  using assms
proof (induction ms arbitrary: acc)
  case Nil
  show ?case by simp
next
  case (Cons m ms)
  have "\<exists>fig'. add_player_traces C m ps acc = Inr fig'"
    using Cons.prems [of m] by (intro add_player_traces_total) simp
  then obtain fig' where "add_player_traces C m ps acc = Inr fig'" ..
  then show ?case
    using Cons.IH [of fig'] Cons.prems by simp
qed

lemma metrics_not_player: "m \<in> set (metrics label) \<Longrightarrow> m \<noteq> ''player''"
  by (auto simp: metrics_def split: if_splits)

lemma comparison_chart_some:
  assumes "comparison_chart label T selected = Inr (Some fig)"
  shows "''player'' \<in> set (names T)"
    and "rows (select_rows (\<lambda>r. cell_at r ''player'' \<in> set (map StrV selected)) T) \<noteq> []"
    and "add_metric_traces (select_rows (\<lambda>r. cell_at r ''player'' \<in> set (map StrV selected)) T)
           (metrics label) selected [] = Inr fig"
  using assms
  by (auto simp: comparison_chart_def compare_frame_def getcol_def df_empty_def
      split: if_splits sum.splits)

lemma traces_need_format:
  assumes "add_metric_traces (select_rows P T) (metrics label) selected [] = Inr fig"
    and "selected \<noteq> []"
  shows "''format'' \<in> set (names T)"
proof -
  obtain p ps where sel: "selected = p # ps"
    using assms(2) by (cases selected) auto
  obtain m ms where ms: "metrics label = m # ms"
    by (cases "metrics label") (auto simp: metrics_def split: if_splits)
  from assms(1) obtain S where "chart_subset (select_rows P T) p = Inr S"
    unfolding sel ms by (auto split: sum.splits)
  then show ?thesis
    by (rule chart_subset_needs_format)
qed

lemma three_format_chart:
  "comparison_chart ''Batting'' (batting_df (load_tables three_format_files)) [''A Sharma''] =
   Inr (Some [\<lparr>bar_x = [StrV ''ODI'', StrV ''T20'', StrV ''TEST''],
                bar_y = [IntV 50, IntV 20, IntV 30], bar_name = ''A Sharma - runs''\<rparr>,
              \<lparr>bar_x = [StrV ''ODI'', StrV ''T20'', StrV ''TEST''],
                bar_y = [FloatV 50, FloatV 20, FloatV 30],
                bar_name = ''A Sharma - average_score''\<rparr>,
              \<lparr>bar_x = [StrV ''ODI'', StrV ''T20'', StrV ''TEST''],
                bar_y = [FloatV 80, FloatV 120, FloatV 40],
                bar_name = ''A Sharma - strike_rate''\<rparr>])"
  by code_simp

text \<open>
  C6. The chart and the aggregator agree. When the comparison view of a category draws a
  chart for the selected players, the aggregator returns a frame for every selected player,
  and the chart is, metric by metric and within a metric player by player, the bar series
  of that player's aggregated frame: its formats on the x-axis, its values of the metric on
  the y-axis. The metrics are \<^verbatim>\<open>runs\<close>, \<^verbatim>\<open>average_score\<close> and \<^verbatim>\<open>strike_rate\<close> under the
  label \<^verbatim>\<open>Batting\<close> and \<^verbatim>\<open>wk\<close> under every other label. And the chart is drawn: on a table
  that has the columns \<^verbatim>\<open>player\<close> and \<^verbatim>\<open>format\<close>, rows of a selected player, and every
  metric of the category as a numeric column.
\<close>

theorem comparison_chart_shows_get_stats:
  "(comparison_chart label T selected = Inr (Some fig) \<longrightarrow>
      (\<exists>R. (\<forall>p \<in> set selected. get_stats T p = Inr (R p)) \<and>
           fig = concat (map (\<lambda>m. map (\<lambda>p. stats_trace (R p) m p) selected)
                   (if label = ''Batting'' then [''runs'', ''average_score'', ''strike_rate'']
                    else [''wk'']))))
   \<and> (''player'' \<in> set (names T) \<and> ''format'' \<in> set (names T)
        \<and> (\<exists>p \<in> set selected. player_rows T p \<noteq> [])
        \<and> (\<forall>m \<in> set (metrics label). m \<in> set (map fst (numeric_columns ''format'' T))) \<longrightarrow>
      (\<exists>fig. comparison_chart label T selected = Inr (Some fig)))"
proof (intro conjI impI)
  let ?C = "select_rows (\<lambda>r. cell_at r ''player'' \<in> set (map StrV selected)) T"
  assume chart: "comparison_chart label T selected = Inr (Some fig)"
  note some = comparison_chart_some [OF chart]
  have "selected \<noteq> []"
    using some(2) by (auto simp: select_rows_def)
  then have fmt: "''format'' \<in> set (names T)"
    using traces_need_format [OF some(3)] by simp
  obtain R where R: "\<And>p. get_stats T p = Inr (R p) \<and> rows (R p) = map (agg_row T p) (agg_keys T p)"
    using get_stats_rows [OF some(1) fmt] by metis
  have "fig = [] @ concat (map (\<lambda>m. map (\<lambda>p. stats_trace (R p) m p) selected) (metrics label))"
  proof (rule add_metric_traces_result [OF _ some(3)])
    fix m p S t
    assume m: "m \<in> set (metrics label)" and p: "p \<in> set selected"
      and S: "chart_subset ?C p = Inr S" and t: "bar S m p = Inr t"
    have "S = \<lparr>columns = (''format'', Object) # numeric_columns ''format'' T,
               rows = map (chart_row T p) (agg_keys T p)\<rparr>"
      using chart_subset_present [OF some(1) fmt p] S by simp
    then show "t = stats_trace (R p) m p"
      using t metrics_not_player [OF m] R [of p] by (intro bar_of_chart_rows) auto
  qed
  then have "fig = concat (map (\<lambda>m. map (\<lambda>p. stats_trace (R p) m p) selected)
                   (if label = ''Batting'' then [''runs'', ''average_score'', ''strike_rate'']
                    else [''wk'']))"
    by (simp add: metrics_def)
  with R show "\<exists>R. (\<forall>p \<in> set selected. get_stats T p = Inr (R p)) \<and>
           fig = concat (map (\<lambda>m. map (\<lambda>p. stats_trace (R p) m p) selected)
                   (if label = ''Batting'' then [''runs'', ''average_score'', ''strike_rate'']
                    else [''wk'']))"
    by blast
next
  let ?C = "select_rows (\<lambda>r. cell_at r ''player'' \<in> set (map StrV selected)) T"
  assume h: "''player'' \<in> set (names T) \<and> ''format'' \<in> set (names T)
        \<and> (\<exists>p \<in> set selected. player_rows T p \<noteq> [])
        \<and> (\<forall>m \<in> set (metrics label). m \<in> set (map fst (numeric_columns ''format'' T)))"
  then have pl: "''player'' \<in> set (names T)" and fmt: "''format'' \<in> set (names T)"
    and num: "\<And>m. m \<in> set (metrics label) \<Longrightarrow> m \<in> set (map fst (numeric_columns ''format'' T))"
    by simp_all
  from h obtain p where "p \<in> set selected" "player_rows T p \<noteq> []"
    by blast
  then obtain r where "p \<in> set selected" "r \<in> set (player_rows T p)"
    by (cases "player_rows T p") auto
  then have "r \<in> set (rows ?C)"
    by (auto simp: select_rows_def player_rows_def)
  then have "rows ?C \<noteq> []"
    by auto
  then have ne: "\<not> df_empty ?C"
    using pl by (auto simp: df_empty_def select_rows_def names_def)
  have cf: "compare_frame T selected = Inr ?C"
    using pl by (simp add: compare_frame_def getcol_def)
  have "\<exists>fig. add_metric_traces ?C (metrics label) selected [] = Inr fig"
  proof (rule add_metric_traces_total)
    fix m p
    assume m: "m \<in> set (metrics label)" and p: "p \<in> set selected"
    have "bar \<lparr>columns = (''format'', Object) # numeric_columns ''format'' T,
               rows = map (chart_row T p) (agg_keys T p)\<rparr> m p
          = Inr \<lparr>bar_x = map (\<lambda>r. cell_at r ''format'') (map (chart_row T p) (agg_keys T p)),
                 bar_y = map (\<lambda>r. cell_at r m) (map (chart_row T p) (agg_keys T p)),
                 bar_name = p @ '' - '' @ m\<rparr>"
      using num [OF m] by (simp add: bar_def getcol_def names_def)
    then show "\<exists>S t. chart_subset ?C p = Inr S \<and> bar S m p = Inr t"
      using chart_subset_present [OF pl fmt p] by simp
  qed
  then obtain fig where "add_metric_traces ?C (metrics label) selected [] = Inr fig" ..
  then show "\<exists>fig. comparison_chart label T selected = Inr (Some fig)"
    using cf ne by (simp add: comparison_chart_def)
qed

theorem comparison_chart_shows_get_stats_witness:
  "comparison_chart ''Batting'' (batting_df (load_tables three_format_files)) [''A Sharma''] =
     Inr (Some [\<lparr>bar_x = [StrV ''ODI'', StrV ''T20'', StrV ''TEST''],
                  bar_y = [IntV 50, IntV 20, IntV 30], bar_name = ''A Sharma - runs''\<rparr>,
                \<lparr>bar_x = [StrV ''ODI'', StrV ''T20'', StrV ''TEST''],
                  bar_y = [FloatV 50, FloatV 20, FloatV 30],
                  bar_name = ''A Sharma - average_score''\<rparr>,
                \<lparr>bar_x = [StrV ''ODI'', StrV ''T20'', StrV ''TEST''],
                  bar_y = [FloatV 80, FloatV 120, FloatV 40],
                  bar_name = ''A Sharma - strike_rate''\<rparr>])
   \<and> (\<exists>R. get_stats (batting_df (load_tables three_format_files)) ''A Sharma'' = Inr R
         \<and> [\<lparr>bar_x = [StrV ''ODI'', StrV ''T20'', StrV ''TEST''],
              bar_y = [IntV 50, IntV 20, IntV 30], bar_name = ''A Sharma - runs''\<rparr>,
            \<lparr>bar_x = [StrV ''ODI'', StrV ''T20'', StrV ''TEST''],
              bar_y = [FloatV 50, FloatV 20, FloatV 30],
              bar_name = ''A Sharma - average_score''\<rparr>,
            \<lparr>bar_x = [StrV ''ODI'', StrV ''T20'', StrV ''TEST''],
              bar_y = [FloatV 80, FloatV 120, FloatV 40],
              bar_name = ''A Sharma - strike_rate''\<rparr>]
           = [stats_trace R ''runs'' ''A Sharma'', stats_trace R ''average_score'' ''A Sharma'',
              stats_trace R ''strike_rate'' ''A Sharma''])
   \<and> ''player'' \<in> set (names (batting_df (load_tables three_format_files)))
   \<and> ''format'' \<in> set (names (batting_df (load_tables three_format_files)))
   \<and> player_rows (batting_df (load_tables three_format_files)) ''A Sharma'' \<noteq> []
   \<and> set (metrics ''Batting'')
       \<subseteq> set (map fst (numeric_columns ''format'' (batting_df (load_tables three_format_files))))"
proof -
  let ?fig = "[\<lparr>bar_x = [StrV ''ODI'', StrV ''T20'', StrV ''TEST''],
                  bar_y = [IntV 50, IntV 20, IntV 30], bar_name = ''A Sharma - runs''\<rparr>,
                \<lparr>bar_x = [StrV ''ODI'', StrV ''T20'', StrV ''TEST''],
                  bar_y = [FloatV 50, FloatV 20, FloatV 30],
                  bar_name = ''A Sharma - average_score''\<rparr>,
                \<lparr>bar_x = [StrV ''ODI'', StrV ''T20'', StrV ''TEST''],
                  bar_y = [FloatV 80, FloatV 120, FloatV 40],
                  bar_name = ''A Sharma - strike_rate''\<rparr>]"
  have "\<exists>R. (\<forall>p \<in> set [''A Sharma''].
            get_stats (batting_df (load_tables three_format_files)) p = Inr (R p)) \<and>
          ?fig = concat (map (\<lambda>m. map (\<lambda>p. stats_trace (R p) m p) [''A Sharma''])
                   (if ''Batting'' = ''Batting'' then [''runs'', ''average_score'', ''strike_rate'']
                    else [''wk'']))"
    using comparison_chart_shows_get_stats
      [of "''Batting''" "batting_df (load_tables three_format_files)" "[''A Sharma'']" ?fig]
      three_format_chart
    by blast
  then obtain R where "get_stats (batting_df (load_tables three_format_files)) ''A Sharma''
        = Inr (R ''A Sharma'')"
    and "?fig = [stats_trace (R ''A Sharma'') ''runs'' ''A Sharma'',
                 stats_trace (R ''A Sharma'') ''average_score'' ''A Sharma'',
                 stats_trace (R ''A Sharma'') ''strike_rate'' ''A Sharma'']"
    by auto
  then have "\<exists>R. get_stats (batting_df (load_tables three_format_files)) ''A Sharma'' = Inr R
         \<and> ?fig = [stats_trace R ''runs'' ''A Sharma'', stats_trace R ''average_score'' ''A Sharma'',
              stats_trace R ''strike_rate'' ''A Sharma'']"
    by blast
  moreover have "''player'' \<in> set (names (batting_df (load_tables three_format_files)))"
    and "''format'' \<in> set (names (batting_df (load_tables three_format_files)))"
    and "player_rows (batting_df (load_tables three_format_files)) ''A Sharma'' \<noteq> []"
    and "set (metrics ''Batting'')
       \<subseteq> set (map fst (numeric_columns ''format'' (batting_df (load_tables three_format_files))))"
    by (simp_all add: three_format_table names_def player_rows_def cell_at_def metrics_def
        numeric_columns_def)
  ultimately show ?thesis
    using three_format_chart by blast
qed

section \<open>Properties of the summary requester\<close>

lemma field_text_get_or_dash: "get_or_dash num r c = field_text num r c"
proof (cases "map_of r c")
  case None
  then have "c \<notin> set (map fst r)"
    by (simp add: map_of_eq_None_iff)
  with None show ?thesis
    by (simp add: get_or_dash_def field_text_def)
next
  case (Some v)
  then have "(c, v) \<in> set r"
    by (rule map_of_SomeD)
  then have "c \<in> set (map fst r)"
    by force
  with Some show ?thesis
    by (simp add: get_or_dash_def field_text_def cell_at_def)
qed

lemma item_present:
  assumes "c \<in> set (map fst r)"
  shows "item num r c = Inr (field_text num r c)"
proof (cases "map_of r c")
  case None
  with assms show ?thesis
    by (simp add: map_of_eq_None_iff)
next
  case (Some v)
  with assms show ?thesis
    by (simp add: item_def field_text_def cell_at_def)
qed

lemma batting_line_text:
  "''format'' \<in> set (map fst r) \<Longrightarrow> batting_line num r = Inr (batting_text num r)"
  by (simp add: batting_line_def batting_text_def field_text_get_or_dash item_present)

lemma bowling_line_text:
  "''format'' \<in> set (map fst r) \<Longrightarrow> bowling_line num r = Inr (bowling_text num r)"
  by (simp add: bowling_line_def bowling_text_def field_text_get_or_dash item_present)

lemma add_lines_text:
  "(\<And>r. r \<in> set rs \<Longrightarrow> line r = Inr (txt r)) \<Longrightarrow>
   add_lines line rs acc = Inr (acc @ concat (map txt rs))"
  by (induction rs arbitrary: acc) simp_all

lemma get_stats_rows_have_format:
  assumes "get_stats T p = Inr R" "r \<in> set (rows R)"
  shows "''format'' \<in> set (map fst r)"
proof -
  from get_stats_cases [OF assms(1)] show ?thesis
  proof
    assume "R = empty_df"
    with assms(2) show ?thesis by (simp add: empty_df_def)
  next
    assume "''player'' \<in> set (names T) \<and> ''format'' \<in> set (names T) \<and> player_rows T p \<noteq> []"
    then have "get_stats T p = Inr \<lparr>columns = (''format'', Object) # agg_columns T,
                              rows = map (agg_row T p) (agg_keys T p)\<rparr>"
      by (simp add: get_stats_present)
    with assms show ?thesis by (auto simp: agg_row_def)
  qed
qed

lemma add_players_text:
  assumes "\<And>p. p \<in> set ps \<Longrightarrow> get_stats bat p = Inr (B p) \<and> get_stats bowl p = Inr (W p)"
  shows "add_players num bat bowl ps acc
           = Inr (acc @ concat (map (\<lambda>p. player_text num (B p) (W p) p) ps))"
  using assms
proof (induction ps arbitrary: acc)
  case Nil
  show ?case by simp
next
  case (Cons p ps)
  have b: "get_stats bat p = Inr (B p)" and w: "get_stats bowl p = Inr (W p)"
    using Cons.prems [of p] by simp_all
  have bl: "add_lines (batting_line num) (rows (B p)) a
              = Inr (a @ concat (map (batting_text num) (rows (B p))))" for a
    by (rule add_lines_text) (rule batting_line_text, rule get_stats_rows_have_format [OF b])
  have wl: "add_lines (bowling_line num) (rows (W p)) a
              = Inr (a @ concat (map (bowling_text num) (rows (W p))))" for a
    by (rule add_lines_text) (rule bowling_line_text, rule get_stats_rows_have_format [OF w])
  have rest: "add_players num bat bowl ps a
           = Inr (a @ concat (map (\<lambda>p. player_text num (B p) (W p) p) ps))" for a
    using Cons.IH [of a] Cons.prems by simp
  show ?case
    by (simp add: b w bl wl rest player_text_def header_text_def)
qed

lemma summary_batting_stats:
  "get_stats summary_batting_table ''A Sharma'' =
     Inr \<lparr>columns = [(''format'', Object), (''id'', Int64), (''runs'', Int64),
                     (''average_score'', Float64)],
           rows = [[(''format'', StrV ''ODI''), (''id'', IntV 1), (''runs'', IntV 50),
                    (''average_score'', FloatV 50)]]\<rparr>"
  by code_simp

lemma summary_bowling_stats:
  "get_stats summary_bowling_table ''A Sharma'' =
     Inr \<lparr>columns = [(''format'', Object), (''id'', Int64), (''wk'', Int64)],
           rows = [[(''format'', StrV ''T20''), (''id'', IntV 1), (''wk'', IntV 3)]]\<rparr>"
  by code_simp

text \<open>
  C7. When the aggregator returns a frame for every selected player on the batting and on
  the bowling table, the prompt is built, and it is the instruction line followed by the
  part of every selected player in turn: an empty line and the header line with the name,
  one batting line for every row of the player's aggregated batting frame, then one
  bowling line for every row of the aggregated bowling frame. A line prints the fields of
  its row, and a dash for a field that the row does not have. (A row of an aggregated frame
  always has its format.)
\<close>

theorem build_prompt_text:
  assumes "\<forall>p \<in> set selected. get_stats bat p = Inr (B p) \<and> get_stats bowl p = Inr (W p)"
  shows "build_prompt num bat bowl selected
           = Inr (instruction @ concat (map (\<lambda>p. player_text num (B p) (W p) p) selected))"
  unfolding build_prompt_def using assms by (intro add_players_text) simp

theorem build_prompt_text_witness:
  "build_prompt (\<lambda>c. ''#'') summary_batting_table summary_bowling_table [''A Sharma'']
     = Inr (''Summarize the cricket performance of the following players:'' @ newline @
            newline @ ''Player: A Sharma'' @ newline @
            ''Batting - ODI: # runs, Avg: #, SR: -'' @ newline @
            ''Bowling - T20: # wickets'' @ newline)"
  using build_prompt_text [of "[''A Sharma'']" summary_batting_table
      "\<lambda>p. \<lparr>columns = [(''format'', Object), (''id'', Int64), (''runs'', Int64),
                     (''average_score'', Float64)],
           rows = [[(''format'', StrV ''ODI''), (''id'', IntV 1), (''runs'', IntV 50),
                    (''average_score'', FloatV 50)]]\<rparr>"
      summary_bowling_table
      "\<lambda>p. \<lparr>columns = [(''format'', Object), (''id'', Int64), (''wk'', Int64)],
           rows = [[(''format'', StrV ''T20''), (''id'', IntV 1), (''wk'', IntV 3)]]\<rparr>"
      "\<lambda>c. ''#''"]
    summary_batting_stats summary_bowling_stats
  by (simp add: instruction_def player_text_def header_text_def batting_text_def
      bowling_text_def field_text_def cell_at_def)

lemma generate_summary_success:
  assumes "service p = Inr t" "writable d ''summary.txt''"
  shows "generate_summary service (Inr p) d
           = (d\<lparr>contents := (contents d)(''summary.txt'' \<mapsto> t)\<rparr>, [Success, Markdown t, Info])"
  using assms by (simp add: generate_summary_def write_file_def open_w_def f_write_def)

text \<open>
  C8. Two generations in a row, both answered by the service, on a disk where
  \<^verbatim>\<open>summary.txt\<close> can be opened for writing: each shows its summary, after the first the
  file holds the first text, and after the second the file holds the second text and
  nothing else.
\<close>

theorem summary_file_holds_last_summary:
  assumes "service1 p1 = Inr t1" and "service2 p2 = Inr t2" and "writable d ''summary.txt''"
  shows "snd (generate_summary service1 (Inr p1) d) = [Success, Markdown t1, Info]
       \<and> contents (fst (generate_summary service1 (Inr p1) d)) ''summary.txt'' = Some t1
       \<and> snd (generate_summary service2 (Inr p2) (fst (generate_summary service1 (Inr p1) d)))
           = [Success, Markdown t2, Info]
       \<and> contents (fst (generate_summary service2 (Inr p2)
                          (fst (generate_summary service1 (Inr p1) d)))) ''summary.txt'' = Some t2"
  using assms by (simp add: generate_summary_success)

theorem summary_file_holds_last_summary_witness:
  "contents (fst (generate_summary (\<lambda>p. Inr ''second'') (Inr ''q'')
       (fst (generate_summary (\<lambda>p. Inr ''first'') (Inr ''q'')
          \<lparr>contents = Map.empty(''summary.txt'' \<mapsto> ''old''), writable = (\<lambda>path. True)\<rparr>))))
     ''summary.txt'' = Some ''second''"
  using summary_file_holds_last_summary [of "\<lambda>p. Inr ''first''" "''q''" "''first''"
      "\<lambda>p. Inr ''second''" "''q''" "''second''"
      "\<lparr>contents = Map.empty(''summary.txt'' \<mapsto> ''old''), writable = (\<lambda>path. True)\<rparr>"]
  by simp

end
